theory Spec2Isabelle
  imports Complex_Main "HOL-Library.AList"
begin

section \<open>Python string operations\<close>

text \<open>
  Python \<open>str\<close> values are modelled as \<open>string\<close>, a character standing for the code
  point of its number (the code points below 256). The functions below follow the Python
  built-ins used by \<open>enhanced_code_graph_server.py\<close>. Whitespace is what
  \<open>str.isspace\<close> and the regular-expression class \<open>\s\<close> accept among these code
  points. \<open>lower\<close> maps the ASCII and the Latin-1 capital letters. \<open>upper\<close> maps the
  ASCII and the Latin-1 small letters and turns U+00DF into \<open>SS\<close>; U+00B5 and U+00FF,
  whose capitals lie beyond U+00FF, are left as they are.
\<close>

definition is_space :: "char \<Rightarrow> bool" where
  "is_space c = (let n = (of_char c :: nat) in
     (9 \<le> n \<and> n \<le> 13) \<or> (28 \<le> n \<and> n \<le> 32) \<or> n = 133 \<or> n = 160)"

definition is_lower :: "char \<Rightarrow> bool" where
  "is_lower c = (let n = (of_char c :: nat) in 97 \<le> n \<and> n \<le> 122)"

definition is_upper :: "char \<Rightarrow> bool" where
  "is_upper c = (let n = (of_char c :: nat) in 65 \<le> n \<and> n \<le> 90)"

definition is_digit :: "char \<Rightarrow> bool" where
  "is_digit c = (let n = (of_char c :: nat) in 48 \<le> n \<and> n \<le> 57)"

definition is_alpha :: "char \<Rightarrow> bool" where
  "is_alpha c = (is_lower c \<or> is_upper c)"

text \<open>The class \<open>[a-zA-Z0-9_]\<close>.\<close>

definition is_word :: "char \<Rightarrow> bool" where
  "is_word c = (is_alpha c \<or> is_digit c \<or> c = CHR ''_'')"

text \<open>The Latin-1 letters with a case mapping inside Latin-1.\<close>

definition is_latin1_lower :: "char \<Rightarrow> bool" where
  "is_latin1_lower c = (let n = (of_char c :: nat) in 224 \<le> n \<and> n \<le> 254 \<and> n \<noteq> 247)"

definition is_latin1_upper :: "char \<Rightarrow> bool" where
  "is_latin1_upper c = (let n = (of_char c :: nat) in 192 \<le> n \<and> n \<le> 222 \<and> n \<noteq> 215)"

definition upper_char :: "char \<Rightarrow> string" where
  "upper_char c =
     (if is_lower c \<or> is_latin1_lower c then [char_of (of_char c - (32::nat))]
      else if c = CHR 0xDF then ''SS''
      else [c])"

definition lower_char :: "char \<Rightarrow> char" where
  "lower_char c =
     (if is_upper c \<or> is_latin1_upper c then char_of (of_char c + (32::nat)) else c)"

definition str_upper :: "string \<Rightarrow> string" where
  "str_upper s = concat (map upper_char s)"

definition str_lower :: "string \<Rightarrow> string" where
  "str_lower s = map lower_char s"

definition strip_by :: "(char \<Rightarrow> bool) \<Rightarrow> string \<Rightarrow> string" where
  "strip_by P s = rev (dropWhile P (rev (dropWhile P s)))"

text \<open>\<open>s.strip()\<close> and \<open>s.strip(chars)\<close>.\<close>

definition str_strip :: "string \<Rightarrow> string" where
  "str_strip s = strip_by is_space s"

definition str_strip_chars :: "string \<Rightarrow> string \<Rightarrow> string" where
  "str_strip_chars cs s = strip_by (\<lambda>c. c \<in> set cs) s"

fun str_startswith :: "string \<Rightarrow> string \<Rightarrow> bool" where
  "str_startswith s [] = True"
| "str_startswith [] (p # ps) = False"
| "str_startswith (c # cs) (p # ps) = (c = p \<and> str_startswith cs ps)"

definition str_endswith :: "string \<Rightarrow> string \<Rightarrow> bool" where
  "str_endswith s p = str_startswith (rev s) (rev p)"

text \<open>\<open>sub in s\<close> for strings.\<close>

fun str_contains :: "string \<Rightarrow> string \<Rightarrow> bool" where
  "str_contains [] sub = (sub = [])"
| "str_contains (c # cs) sub = (str_startswith (c # cs) sub \<or> str_contains cs sub)"

text \<open>\<open>s.count(c)\<close> for a one-character argument.\<close>

definition str_count :: "string \<Rightarrow> char \<Rightarrow> int" where
  "str_count s c = int (length (filter (\<lambda>x. x = c) s))"

text \<open>\<open>s.split(sep)\<close> for a one-character separator: never the empty list.\<close>

fun str_split :: "string \<Rightarrow> char \<Rightarrow> string list" where
  "str_split [] sep = [[]]"
| "str_split (c # cs) sep =
     (if c = sep then [] # str_split cs sep
      else (case str_split cs sep of
              [] \<Rightarrow> [[c]]
            | w # ws \<Rightarrow> (c # w) # ws))"

text \<open>\<open>sep.join(xs)\<close>.\<close>

fun str_join :: "string \<Rightarrow> string list \<Rightarrow> string" where
  "str_join sep [] = []"
| "str_join sep [x] = x"
| "str_join sep (x # y # ys) = x @ sep @ str_join sep (y # ys)"

text \<open>\<open>enumerate(xs, 1)\<close>.\<close>

definition enumerate1 :: "'a list \<Rightarrow> (int \<times> 'a) list" where
  "enumerate1 xs = zip (map int [1 ..< Suc (length xs)]) xs"

section \<open>Regular expressions\<close>

text \<open>
  The patterns of the extractors use literals, character classes, greedy repetition of a
  character class, optional non-capturing groups, alternatives and capturing groups.
  \<open>rx_run\<close> lists the ways a pattern can match at the start of the text in the order
  the backtracking matcher of Python's \<open>re\<close> tries them (greedy first, alternatives left
  to right), each with the groups captured and the text left over. The first entry is the
  match that \<open>re.match\<close> reports.
\<close>

datatype rx =
    Lit string
  | One "char \<Rightarrow> bool"
  | Star "char \<Rightarrow> bool"
  | Plus "char \<Rightarrow> bool"
  | Seq rx rx
  | Alt rx rx
  | Opt rx
  | Grp nat rx

type_synonym groups = "(nat \<times> string) list"

fun rx_run :: "rx \<Rightarrow> groups \<times> string \<Rightarrow> (groups \<times> string) list" where
  "rx_run (Lit l) (g, s) = (if str_startswith s l then [(g, drop (length l) s)] else [])"
| "rx_run (One P) (g, s) =
     (case s of [] \<Rightarrow> [] | c # cs \<Rightarrow> if P c then [(g, cs)] else [])"
| "rx_run (Star P) (g, s) =
     map (\<lambda>k. (g, drop k s)) (rev [0 ..< Suc (length (takeWhile P s))])"
| "rx_run (Plus P) (g, s) =
     map (\<lambda>k. (g, drop k s)) (rev [1 ..< Suc (length (takeWhile P s))])"
| "rx_run (Seq a b) st = concat (map (rx_run b) (rx_run a st))"
| "rx_run (Alt a b) st = rx_run a st @ rx_run b st"
| "rx_run (Opt a) st = rx_run a st @ [st]"
| "rx_run (Grp n a) (g, s) =
     map (\<lambda>(g', s'). ((n, take (length s - length s') s) # g', s')) (rx_run a (g, s))"

text \<open>\<open>re.match\<close>: the groups of the match and the text after it.\<close>

definition re_match :: "rx \<Rightarrow> string \<Rightarrow> (groups \<times> string) option" where
  "re_match r s = (case rx_run r ([], s) of [] \<Rightarrow> None | m # _ \<Rightarrow> Some m)"

text \<open>\<open>re.search\<close>: the match at the first position that has one.\<close>

fun re_search :: "rx \<Rightarrow> string \<Rightarrow> (groups \<times> string) option" where
  "re_search r [] = re_match r []"
| "re_search r (c # cs) =
     (case re_match r (c # cs) of
        Some m \<Rightarrow> Some m
      | None \<Rightarrow> re_search r cs)"

text \<open>
  \<open>re.finditer\<close>: the matches from left to right, each search starting where the
  previous match ended. The counter is the number of characters still covered by the last
  match. No pattern of this program matches the empty string.
\<close>

fun finditer_from :: "rx \<Rightarrow> nat \<Rightarrow> string \<Rightarrow> groups list" where
  "finditer_from r k [] =
     (if k = 0 then (case re_match r [] of Some (g, _) \<Rightarrow> [g] | None \<Rightarrow> []) else [])"
| "finditer_from r k (c # cs) =
     (if 0 < k then finditer_from r (k - 1) cs
      else (case re_match r (c # cs) of
              Some (g, rest) \<Rightarrow> g # finditer_from r (length cs - length rest) cs
            | None \<Rightarrow> finditer_from r 0 cs))"

definition re_finditer :: "rx \<Rightarrow> string \<Rightarrow> groups list" where
  "re_finditer r s = finditer_from r 0 s"

text \<open>\<open>m.group(n)\<close> for a group that took part in the match.\<close>

definition match_group :: "groups \<Rightarrow> nat \<Rightarrow> string" where
  "match_group g n = (case map_of g n of Some s \<Rightarrow> s | None \<Rightarrow> [])"

definition seqs :: "rx list \<Rightarrow> rx" where
  "seqs rs = foldr Seq rs (Lit [])"

definition alts :: "string list \<Rightarrow> rx" where
  "alts ls = foldr (\<lambda>l r. Alt (Lit l) r) (butlast ls) (Lit (last ls))"

section \<open>Data model\<close>

datatype NodeType =
    CLASS | METHOD | PROPERTY | FIELD | STORED_PROCEDURE | TABLE | ASPX_PAGE
  | ASPX_CONTROL | NAMESPACE | INTERFACE | ENUM | CONSTANT | EVENT | DELEGATE

fun NodeType_value :: "NodeType \<Rightarrow> string" where
  "NodeType_value CLASS = ''class''"
| "NodeType_value METHOD = ''method''"
| "NodeType_value PROPERTY = ''property''"
| "NodeType_value FIELD = ''field''"
| "NodeType_value STORED_PROCEDURE = ''stored_procedure''"
| "NodeType_value TABLE = ''table''"
| "NodeType_value ASPX_PAGE = ''aspx_page''"
| "NodeType_value ASPX_CONTROL = ''aspx_control''"
| "NodeType_value NAMESPACE = ''namespace''"
| "NodeType_value INTERFACE = ''interface''"
| "NodeType_value ENUM = ''enum''"
| "NodeType_value CONSTANT = ''constant''"
| "NodeType_value EVENT = ''event''"
| "NodeType_value DELEGATE = ''delegate''"

datatype RelationshipType =
    INHERITANCE | IMPLEMENTS | METHOD_CALL | DATABASE_ACCESS | PROPERTY_ACCESS
  | CODEBEHIND | CONTAINS | REFERENCES | USES | DEPENDS_ON | FOREIGN_KEY
  | COMPOSITION | AGGREGATION

fun RelationshipType_value :: "RelationshipType \<Rightarrow> string" where
  "RelationshipType_value INHERITANCE = ''inheritance''"
| "RelationshipType_value IMPLEMENTS = ''implements''"
| "RelationshipType_value METHOD_CALL = ''method_call''"
| "RelationshipType_value DATABASE_ACCESS = ''database_access''"
| "RelationshipType_value PROPERTY_ACCESS = ''property_access''"
| "RelationshipType_value CODEBEHIND = ''codebehind''"
| "RelationshipType_value CONTAINS = ''contains''"
| "RelationshipType_value REFERENCES = ''references''"
| "RelationshipType_value USES = ''uses''"
| "RelationshipType_value DEPENDS_ON = ''depends_on''"
| "RelationshipType_value FOREIGN_KEY = ''foreign_key''"
| "RelationshipType_value COMPOSITION = ''composition''"
| "RelationshipType_value AGGREGATION = ''aggregation''"

text \<open>
  The values held by the \<open>Dict[str, Any]\<close> fields and by the dictionaries that
  \<open>to_dict\<close> builds. A dictionary is an association list in insertion order.
\<close>

datatype pyval =
    PNone
  | PBool bool
  | PInt int
  | PFloat real
  | PStr string
  | PList "pyval list"
  | PDict "(string \<times> pyval) list"

text \<open>
  The dataclasses. The fields \<open>id\<close>, \<open>name\<close>, \<open>file_path\<close>, \<open>line_number\<close>
  and \<open>metadata\<close> of \<open>CodeNode\<close> carry the prefix \<open>node_\<close>, the \<open>metadata\<close> of
  \<open>CodeRelationship\<close> the prefix \<open>rel_\<close>, and the \<open>nodes\<close> and
  \<open>relationships\<close> of \<open>CodePattern\<close> the prefix \<open>pattern_\<close>.
  \<open>files\<close> is \<open>list(set(...))\<close> in the source, whose order Python does not fix; the
  model lists each file once (\<open>remdups\<close>), and no statement below depends on the order.
\<close>

record CodeNode =
  node_id :: string
  node_name :: string
  node_type :: NodeType
  node_file_path :: string
  node_line_number :: int
  node_metadata :: "(string \<times> pyval) list"

record CodeRelationship =
  source_id :: string
  target_id :: string
  relationship_type :: RelationshipType
  rel_metadata :: "(string \<times> pyval) list"
  confidence :: real

record CodePattern =
  pattern_id :: string
  pattern_type :: string
  files :: "string list"
  pattern_nodes :: "CodeNode list"
  pattern_relationships :: "CodeRelationship list"
  template_data :: "(string \<times> pyval) list"
  similarity_score :: real

definition node_to_dict :: "CodeNode \<Rightarrow> pyval" where
  "node_to_dict n = PDict
     [(''id'', PStr (node_id n)),
      (''name'', PStr (node_name n)),
      (''type'', PStr (NodeType_value (node_type n))),
      (''file_path'', PStr (node_file_path n)),
      (''line_number'', PInt (node_line_number n)),
      (''metadata'', PDict (node_metadata n))]"

definition rel_to_dict :: "CodeRelationship \<Rightarrow> pyval" where
  "rel_to_dict r = PDict
     [(''source_id'', PStr (source_id r)),
      (''target_id'', PStr (target_id r)),
      (''relationship_type'', PStr (RelationshipType_value (relationship_type r))),
      (''metadata'', PDict (rel_metadata r)),
      (''confidence'', PFloat (confidence r))]"

definition pattern_to_dict :: "CodePattern \<Rightarrow> pyval" where
  "pattern_to_dict p = PDict
     [(''pattern_id'', PStr (pattern_id p)),
      (''pattern_type'', PStr (pattern_type p)),
      (''files'', PList (map PStr (files p))),
      (''nodes'', PList (map node_to_dict (pattern_nodes p))),
      (''relationships'', PList (map rel_to_dict (pattern_relationships p))),
      (''template_data'', PDict (template_data p)),
      (''similarity_score'', PFloat (similarity_score p))]"

text \<open>
  The state of an \<open>EnhancedCodeGraphServer\<close> that its analysis, pattern and query
  methods read and write: \<open>self.nodes\<close> (a dictionary keyed by node id, in insertion
  order), \<open>self.relationships\<close> and \<open>self.patterns\<close>. The networkx graph and the
  SQLite mirror are written by these methods and read by none of them; they are left out.
  Assigning \<open>d[k] = v\<close> is \<open>AList.update k v d\<close>: an existing key keeps its place, a
  new key goes to the end.
\<close>

record EnhancedCodeGraphServer =
  nodes :: "(string \<times> CodeNode) list"
  relationships :: "CodeRelationship list"
  patterns :: "CodePattern list"

text \<open>The state after \<open>__init__\<close>.\<close>

definition init_server :: EnhancedCodeGraphServer where
  "init_server = \<lparr>nodes = [], relationships = [], patterns = []\<rparr>"

section \<open>Paths and files\<close>

text \<open>
  \<open>pathlib.Path\<close> in its POSIX flavour: a root (\<open>/\<close>, \<open>//\<close> or none) and the
  components, without the empty and the \<open>.\<close> ones.
\<close>

record PurePath =
  path_root :: string
  path_parts :: "string list"

definition Path :: "string \<Rightarrow> PurePath" where
  "Path s =
     \<lparr>path_root =
        (if str_startswith s ''//'' \<and> \<not> str_startswith s ''///'' then ''//''
         else if str_startswith s ''/'' then ''/''
         else []),
      path_parts = filter (\<lambda>x. x \<noteq> [] \<and> x \<noteq> ''.'') (str_split s CHR ''/'')\<rparr>"

text \<open>\<open>str(path)\<close>.\<close>

definition path_str :: "PurePath \<Rightarrow> string" where
  "path_str p =
     (if path_root p = [] \<and> path_parts p = [] then ''.''
      else path_root p @ str_join ''/'' (path_parts p))"

text \<open>\<open>path.name\<close>, \<open>path.suffix\<close> and \<open>path.stem\<close>.\<close>

definition path_name :: "PurePath \<Rightarrow> string" where
  "path_name p = (if path_parts p = [] then [] else last (path_parts p))"

text \<open>\<open>s.rfind('.')\<close>, as the number of characters after the last dot.\<close>

definition after_last_dot :: "string \<Rightarrow> nat option" where
  "after_last_dot s =
     (if CHR ''.'' \<in> set s then Some (length (takeWhile (\<lambda>c. c \<noteq> CHR ''.'') (rev s)))
      else None)"

definition path_suffix :: "PurePath \<Rightarrow> string" where
  "path_suffix p =
     (let name = path_name p in
      case after_last_dot name of
        None \<Rightarrow> []
      | Some k \<Rightarrow>
          if 0 < k \<and> Suc k < length name then drop (length name - Suc k) name else [])"

definition path_stem :: "PurePath \<Rightarrow> string" where
  "path_stem p =
     (let name = path_name p in
      case after_last_dot name of
        None \<Rightarrow> name
      | Some k \<Rightarrow>
          if 0 < k \<and> Suc k < length name then take (length name - Suc k) name else name)"

text \<open>\<open>path.parent\<close> and \<open>path / other\<close>.\<close>

definition path_parent :: "PurePath \<Rightarrow> PurePath" where
  "path_parent p = p\<lparr>path_parts := butlast (path_parts p)\<rparr>"

definition path_join :: "PurePath \<Rightarrow> string \<Rightarrow> PurePath" where
  "path_join p other =
     (let q = Path other in
      if path_root q \<noteq> [] then q
      else \<lparr>path_root = path_root p, path_parts = path_parts p @ path_parts q\<rparr>)"

text \<open>
  What \<open>open(file_path, 'r', encoding='utf-8')\<close> followed by \<open>read()\<close> gives for a
  path that exists: the text, a \<open>UnicodeDecodeError\<close>, or another exception with its
  message. A file system maps the paths that exist to that outcome.
\<close>

datatype file_read = Text string | UnicodeDecodeError | OtherError string

type_synonym filesystem = "string \<Rightarrow> file_read option"

section \<open>Element extractors\<close>

text \<open>Truth value of an \<open>Optional[str]\<close>: \<open>None\<close> and the empty string are false.\<close>

definition truthy :: "string option \<Rightarrow> bool" where
  "truthy x = (case x of None \<Rightarrow> False | Some s \<Rightarrow> s \<noteq> [])"

definition opt_str :: "string option \<Rightarrow> pyval" where
  "opt_str x = (case x of None \<Rightarrow> PNone | Some s \<Rightarrow> PStr s)"

definition extract_access_modifier :: "string \<Rightarrow> string" where
  "extract_access_modifier line =
     (let line_lower = str_lower line in
      if str_contains line_lower ''private'' then ''private''
      else if str_contains line_lower ''protected'' then ''protected''
      else if str_contains line_lower ''internal'' then ''internal''
      else if str_contains line_lower ''public'' then ''public''
      else ''default'')"

subsection \<open>C# files\<close>

text \<open>\<open>(?:public|private|protected|internal)?\<close>\<close>

definition access_rx :: rx where
  "access_rx = Opt (alts [''public'', ''private'', ''protected'', ''internal''])"

text \<open>\<open>(?:word\s+)?\<close>\<close>

definition opt_word :: "string \<Rightarrow> rx" where
  "opt_word w = Opt (Seq (Lit w) (Plus is_space))"

text \<open>\<open>namespace\s+([a-zA-Z0-9_.]+)\<close>\<close>

definition namespace_rx :: rx where
  "namespace_rx =
     seqs [Lit ''namespace'', Plus is_space, Grp 1 (Plus (\<lambda>c. is_word c \<or> c = CHR ''.''))]"

text \<open>
  \<open>(?:public|private|protected|internal)?\s*(?:partial\s+)?(?:static\s+)?class\s+([a-zA-Z0-9_]+)\<close>
\<close>

definition class_rx :: rx where
  "class_rx =
     seqs [access_rx, Star is_space, opt_word ''partial'', opt_word ''static'',
           Lit ''class'', Plus is_space, Grp 1 (Plus is_word)]"

text \<open>
  \<open>(?:public|private|protected|internal)?\s*(?:static\s+)?(?:async\s+)?(?:override\s+)?(?:virtual\s+)?[a-zA-Z0-9_<>\[\]]+\s+([a-zA-Z0-9_]+)\s*\(\<close>
\<close>

definition method_rx :: rx where
  "method_rx =
     seqs [access_rx, Star is_space, opt_word ''static'', opt_word ''async'',
           opt_word ''override'', opt_word ''virtual'',
           Plus (\<lambda>c. is_word c \<or> c \<in> set ''<>[]''), Plus is_space,
           Grp 1 (Plus is_word), Star is_space, Lit ''('']"

text \<open>\<open>["\']([a-zA-Z0-9_]+)["\']\<close>\<close>

definition quoted_rx :: rx where
  "quoted_rx =
     seqs [One (\<lambda>c. c = CHR 0x22 \<or> c = CHR 0x27), Grp 1 (Plus is_word),
           One (\<lambda>c. c = CHR 0x22 \<or> c = CHR 0x27)]"

text \<open>The local variables of the scan in \<open>_analyze_csharp_detailed\<close>.\<close>

record csharp_scan =
  cs_nodes :: "CodeNode list"
  cs_relationships :: "CodeRelationship list"
  current_namespace :: "string option"
  current_class :: "string option"
  in_method :: bool
  brace_count :: int

definition csharp_scan_init :: csharp_scan where
  "csharp_scan_init =
     \<lparr>cs_nodes = [], cs_relationships = [], current_namespace = None,
      current_class = None, in_method = False, brace_count = 0\<rparr>"

definition count_braces :: "string \<Rightarrow> csharp_scan \<Rightarrow> csharp_scan" where
  "count_braces line_stripped st =
     st\<lparr>brace_count := brace_count st
          + (str_count line_stripped CHR ''{'' - str_count line_stripped CHR ''}'')\<rparr>"

definition detect_namespace :: "string \<Rightarrow> int \<Rightarrow> string \<Rightarrow> csharp_scan \<Rightarrow> csharp_scan" where
  "detect_namespace fp line_num line_stripped st =
     (case re_match namespace_rx line_stripped of
        None \<Rightarrow> st
      | Some (g, _) \<Rightarrow>
          (let namespace_name = match_group g 1 in
           st\<lparr>current_namespace := Some namespace_name,
              cs_nodes := cs_nodes st @
                [\<lparr>node_id = fp @ '':namespace:'' @ namespace_name,
                  node_name = namespace_name,
                  node_type = NAMESPACE,
                  node_file_path = fp,
                  node_line_number = line_num,
                  node_metadata = [(''scope'', PStr ''namespace'')]\<rparr>]\<rparr>))"

definition detect_class :: "string \<Rightarrow> int \<Rightarrow> string \<Rightarrow> csharp_scan \<Rightarrow> csharp_scan" where
  "detect_class fp line_num line_stripped st =
     (case re_match class_rx line_stripped of
        None \<Rightarrow> st
      | Some (g, _) \<Rightarrow>
          (let class_name = match_group g 1;
               nid = fp @ '':class:'' @ class_name
           in st\<lparr>current_class := Some class_name,
                 cs_nodes := cs_nodes st @
                   [\<lparr>node_id = nid,
                     node_name = class_name,
                     node_type = CLASS,
                     node_file_path = fp,
                     node_line_number = line_num,
                     node_metadata =
                       [(''namespace'', opt_str (current_namespace st)),
                        (''access_modifier'', PStr (extract_access_modifier line_stripped))]\<rparr>],
                 cs_relationships := cs_relationships st @
                   (if truthy (current_namespace st) then
                      [\<lparr>source_id = fp @ '':namespace:'' @ the (current_namespace st),
                        target_id = nid,
                        relationship_type = CONTAINS,
                        rel_metadata = [(''scope'', PStr ''namespace_contains_class'')],
                        confidence = 1\<rparr>]
                    else [])\<rparr>))"

definition detect_method :: "string \<Rightarrow> int \<Rightarrow> string \<Rightarrow> csharp_scan \<Rightarrow> csharp_scan" where
  "detect_method fp line_num line_stripped st =
     (case re_match method_rx line_stripped of
        None \<Rightarrow> st
      | Some (g, _) \<Rightarrow>
          if truthy (current_class st) \<and> \<not> str_startswith line_stripped ''//'' then
            (let method_name = match_group g 1;
                 cls = the (current_class st);
                 nid = fp @ '':method:'' @ cls @ '':'' @ method_name
             in st\<lparr>cs_nodes := cs_nodes st @
                     [\<lparr>node_id = nid,
                       node_name = method_name,
                       node_type = METHOD,
                       node_file_path = fp,
                       node_line_number = line_num,
                       node_metadata =
                         [(''class'', PStr cls),
                          (''access_modifier'', PStr (extract_access_modifier line_stripped)),
                          (''is_static'', PBool (str_contains line_stripped ''static'')),
                          (''is_async'', PBool (str_contains line_stripped ''async''))]\<rparr>],
                   cs_relationships := cs_relationships st @
                     (if truthy (current_class st) then
                        [\<lparr>source_id = fp @ '':class:'' @ cls,
                          target_id = nid,
                          relationship_type = CONTAINS,
                          rel_metadata = [(''scope'', PStr ''class_contains_method'')],
                          confidence = 1\<rparr>]
                      else [])\<rparr>)
          else st)"

definition database_keywords :: "string list" where
  "database_keywords = [''SqlCommand'', ''SqlConnection'', ''ExecuteNonQuery'', ''ExecuteScalar'']"

definition detect_database_access ::
    "string \<Rightarrow> int \<Rightarrow> string \<Rightarrow> csharp_scan \<Rightarrow> csharp_scan" where
  "detect_database_access fp line_num line_stripped st =
     (if list_ex (\<lambda>keyword. str_contains line_stripped keyword) database_keywords then
        (case re_search quoted_rx line_stripped of
           None \<Rightarrow> st
         | Some (g, _) \<Rightarrow>
             if str_startswith (match_group g 1) ''sp_'' \<or> str_startswith (match_group g 1) ''usp_''
             then
               (let proc_name = match_group g 1;
                    proc_node_id = ''database:procedure:'' @ proc_name;
                    st1 =
                      (if proc_node_id \<notin> set (map node_id (cs_nodes st)) then
                         st\<lparr>cs_nodes := cs_nodes st @
                              [\<lparr>node_id = proc_node_id,
                                node_name = proc_name,
                                node_type = STORED_PROCEDURE,
                                node_file_path = ''database'',
                                node_line_number = 0,
                                node_metadata = [(''database_object'', PBool True)]\<rparr>]\<rparr>
                       else st)
                in if in_method st1 \<and> truthy (current_class st1) then
                     st1\<lparr>cs_relationships := cs_relationships st1 @
                          [\<lparr>source_id = fp @ '':method:'' @ the (current_class st1) @ '':*'',
                            target_id = proc_node_id,
                            relationship_type = DATABASE_ACCESS,
                            rel_metadata = [(''line_number'', PInt line_num)],
                            confidence = 1\<rparr>]\<rparr>
                   else st1)
             else st)
      else st)"

text \<open>The body of the loop over the numbered lines.\<close>

definition csharp_line :: "string \<Rightarrow> int \<times> string \<Rightarrow> csharp_scan \<Rightarrow> csharp_scan" where
  "csharp_line fp nl st =
     (let line_num = fst nl;
          line_stripped = str_strip (snd nl)
      in detect_database_access fp line_num line_stripped
           (detect_method fp line_num line_stripped
             (detect_class fp line_num line_stripped
               (detect_namespace fp line_num line_stripped
                 (count_braces line_stripped st)))))"

definition analyze_csharp_detailed ::
    "PurePath \<Rightarrow> string \<Rightarrow> CodeNode list \<times> CodeRelationship list" where
  "analyze_csharp_detailed file_path content =
     (let lines = str_split content CHR 0x0A;
          st = fold (csharp_line (path_str file_path)) (enumerate1 lines) csharp_scan_init
      in (cs_nodes st, cs_relationships st))"

subsection \<open>ASPX files\<close>

text \<open>\<open>CodeBehind="([^"]+)"\<close>\<close>

definition codebehind_rx :: rx where
  "codebehind_rx =
     seqs [Lit (''CodeBehind='' @ [CHR 0x22]), Grp 1 (Plus (\<lambda>c. c \<noteq> CHR 0x22)),
           Lit [CHR 0x22]]"

text \<open>\<open><asp:([a-zA-Z]+)\s+[^>]*ID="([^"]+)"\<close>, and the same with \<open>id\<close>.\<close>

definition control_rx :: "string \<Rightarrow> rx" where
  "control_rx attr =
     seqs [Lit ''<asp:'', Grp 1 (Plus is_alpha), Plus is_space,
           Star (\<lambda>c. c \<noteq> CHR ''>''), Lit (attr @ ''='' @ [CHR 0x22]),
           Grp 2 (Plus (\<lambda>c. c \<noteq> CHR 0x22)), Lit [CHR 0x22]]"

definition control_patterns :: "rx list" where
  "control_patterns = [control_rx ''ID'', control_rx ''id'']"

text \<open>The node and the relationship appended for one match of a control pattern.\<close>

definition control_of_match ::
    "string \<Rightarrow> string \<Rightarrow> int \<Rightarrow> groups \<Rightarrow> CodeNode \<times> CodeRelationship" where
  "control_of_match fp page_node_id line_num g =
     (let control_type = match_group g 1;
          control_id = match_group g 2;
          control_node_id = fp @ '':control:'' @ control_id
      in (\<lparr>node_id = control_node_id,
           node_name = control_id,
           node_type = ASPX_CONTROL,
           node_file_path = fp,
           node_line_number = line_num,
           node_metadata = [(''control_type'', PStr control_type)]\<rparr>,
          \<lparr>source_id = page_node_id,
           target_id = control_node_id,
           relationship_type = CONTAINS,
           rel_metadata = [(''scope'', PStr ''page_contains_control'')],
           confidence = 1\<rparr>))"

definition analyze_aspx_detailed ::
    "PurePath \<Rightarrow> string \<Rightarrow> CodeNode list \<times> CodeRelationship list" where
  "analyze_aspx_detailed file_path content =
     (let fp = path_str file_path;
          page_name = path_stem file_path;
          page_node_id = fp @ '':page:'' @ page_name;
          page_node =
            \<lparr>node_id = page_node_id,
             node_name = page_name,
             node_type = ASPX_PAGE,
             node_file_path = fp,
             node_line_number = 1,
             node_metadata = [(''page_type'', PStr ''aspx'')]\<rparr>;
          codebehind =
            (case re_search codebehind_rx content of
               None \<Rightarrow> []
             | Some (g, _) \<Rightarrow>
                 (let codebehind_file = match_group g 1;
                      codebehind_path = path_join (path_parent file_path) codebehind_file
                  in [\<lparr>source_id = page_node_id,
                        target_id = path_str codebehind_path @ '':class:*'',
                        relationship_type = CODEBEHIND,
                        rel_metadata = [(''codebehind_file'', PStr (path_str codebehind_path))],
                        confidence = 1\<rparr>]));
          lines = str_split content CHR 0x0A;
          controls =
            concat (map (\<lambda>(line_num, line).
              concat (map (\<lambda>pattern.
                map (control_of_match fp page_node_id line_num) (re_finditer pattern line))
                control_patterns))
              (enumerate1 lines))
      in (page_node # map fst controls, codebehind @ map snd controls))"

subsection \<open>SQL files\<close>

definition sql_name_char :: "char \<Rightarrow> bool" where
  "sql_name_char c = (is_word c \<or> c = CHR ''['' \<or> c = CHR '']'')"

text \<open>\<open>CREATE\s+PROCEDURE\s+([a-zA-Z0-9_\[\]]+)\<close>\<close>

definition create_procedure_rx :: rx where
  "create_procedure_rx =
     seqs [Lit ''CREATE'', Plus is_space, Lit ''PROCEDURE'', Plus is_space,
           Grp 1 (Plus sql_name_char)]"

text \<open>
  \<open>FROM\s+([a-zA-Z0-9_\[\]]+)\<close>, \<open>JOIN\s+([a-zA-Z0-9_\[\]]+)\<close>,
  \<open>UPDATE\s+([a-zA-Z0-9_\[\]]+)\<close>, \<open>INSERT\s+INTO\s+([a-zA-Z0-9_\[\]]+)\<close>
\<close>

definition table_patterns :: "rx list" where
  "table_patterns =
     [seqs [Lit ''FROM'', Plus is_space, Grp 1 (Plus sql_name_char)],
      seqs [Lit ''JOIN'', Plus is_space, Grp 1 (Plus sql_name_char)],
      seqs [Lit ''UPDATE'', Plus is_space, Grp 1 (Plus sql_name_char)],
      seqs [Lit ''INSERT'', Plus is_space, Lit ''INTO'', Plus is_space,
            Grp 1 (Plus sql_name_char)]]"

definition add_table :: "groups \<Rightarrow> CodeNode list \<Rightarrow> CodeNode list" where
  "add_table g ns =
     (let table_name = str_strip_chars ''[]'' (match_group g 1);
          table_node_id = ''database:table:'' @ table_name
      in if table_node_id \<notin> set (map node_id ns) then
           ns @ [\<lparr>node_id = table_node_id,
                  node_name = table_name,
                  node_type = TABLE,
                  node_file_path = ''database'',
                  node_line_number = 0,
                  node_metadata = [(''database_object'', PBool True)]\<rparr>]
         else ns)"

definition sql_line :: "string \<Rightarrow> int \<times> string \<Rightarrow> CodeNode list \<Rightarrow> CodeNode list" where
  "sql_line fp nl ns =
     (let line_num = fst nl;
          line_upper = str_strip (str_upper (snd nl));
          ns1 =
            (if str_startswith line_upper ''CREATE PROCEDURE'' then
               (case re_search create_procedure_rx line_upper of
                  None \<Rightarrow> ns
                | Some (g, _) \<Rightarrow>
                    (let proc_name = str_strip_chars ''[]'' (match_group g 1) in
                     ns @ [\<lparr>node_id = ''database:procedure:'' @ proc_name,
                            node_name = proc_name,
                            node_type = STORED_PROCEDURE,
                            node_file_path = fp,
                            node_line_number = line_num,
                            node_metadata = [(''database_object'', PBool True)]\<rparr>]))
             else ns)
      in fold (\<lambda>pattern acc. fold add_table (re_finditer pattern line_upper) acc)
           table_patterns ns1)"

definition analyze_sql_detailed ::
    "PurePath \<Rightarrow> string \<Rightarrow> CodeNode list \<times> CodeRelationship list" where
  "analyze_sql_detailed file_path content =
     (let lines = str_split content CHR 0x0A
      in (fold (sql_line (path_str file_path)) (enumerate1 lines) [], []))"

section \<open>Source scanner\<close>

text \<open>
  \<open>_analyze_file_detailed\<close>, given what reading the file produced. A decoding failure
  is caught inside and gives two empty lists; any other exception leaves the method
  (\<open>Inl\<close> with its message).
\<close>

definition analyze_file_detailed ::
    "PurePath \<Rightarrow> file_read \<Rightarrow> string + (CodeNode list \<times> CodeRelationship list)" where
  "analyze_file_detailed file_path rd =
     (case rd of
        UnicodeDecodeError \<Rightarrow> Inr ([], [])
      | OtherError msg \<Rightarrow> Inl msg
      | Text content \<Rightarrow>
          Inr (if path_suffix file_path = ''.cs'' then analyze_csharp_detailed file_path content
               else if path_suffix file_path = ''.aspx'' then analyze_aspx_detailed file_path content
               else if path_suffix file_path = ''.sql'' then analyze_sql_detailed file_path content
               else ([], [])))"

record analysis_results =
  files_analyzed :: int
  nodes_created :: int
  relationships_found :: int
  patterns_identified :: int
  errors :: "string list"

definition analysis_results_init :: analysis_results where
  "analysis_results_init =
     \<lparr>files_analyzed = 0, nodes_created = 0, relationships_found = 0,
      patterns_identified = 0, errors = []\<rparr>"

text \<open>The two inner loops of \<open>analyze_specific_files\<close>.\<close>

definition add_node ::
    "CodeNode \<Rightarrow> analysis_results \<times> EnhancedCodeGraphServer
       \<Rightarrow> analysis_results \<times> EnhancedCodeGraphServer" where
  "add_node node rs =
     (case rs of (res, self) \<Rightarrow>
        (res\<lparr>nodes_created := nodes_created res + 1\<rparr>,
         self\<lparr>nodes := AList.update (node_id node) node (nodes self)\<rparr>))"

definition add_relationship ::
    "CodeRelationship \<Rightarrow> analysis_results \<times> EnhancedCodeGraphServer
       \<Rightarrow> analysis_results \<times> EnhancedCodeGraphServer" where
  "add_relationship rel rs =
     (case rs of (res, self) \<Rightarrow>
        (res\<lparr>relationships_found := relationships_found res + 1\<rparr>,
         self\<lparr>relationships := relationships self @ [rel]\<rparr>))"

text \<open>The body of the loop over \<open>file_paths\<close>, with its \<open>try\<close> and \<open>except\<close>.\<close>

definition analyze_one ::
    "filesystem \<Rightarrow> string \<Rightarrow> analysis_results \<times> EnhancedCodeGraphServer
       \<Rightarrow> analysis_results \<times> EnhancedCodeGraphServer" where
  "analyze_one fs file_path rs =
     (case rs of (res, self) \<Rightarrow>
        (let path_obj = Path file_path in
         case fs (path_str path_obj) of
           None \<Rightarrow> (res\<lparr>errors := errors res @ [''File not found: '' @ file_path]\<rparr>, self)
         | Some rd \<Rightarrow>
             (case analyze_file_detailed path_obj rd of
                Inl e \<Rightarrow>
                  (res\<lparr>errors := errors res @ [''Error analyzing '' @ file_path @ '': '' @ e]\<rparr>,
                   self)
              | Inr (ns, rels) \<Rightarrow>
                  (case fold add_relationship rels (fold add_node ns (res, self)) of
                     (res', self') \<Rightarrow>
                       (res'\<lparr>files_analyzed := files_analyzed res' + 1\<rparr>, self')))))"

section \<open>Pattern recogniser\<close>

text \<open>\<open>d.get(k, default)\<close> on an insertion-ordered dictionary.\<close>

definition dict_get :: "('k \<times> 'v) list \<Rightarrow> 'k \<Rightarrow> 'v \<Rightarrow> 'v" where
  "dict_get d k dflt = (case map_of d k of None \<Rightarrow> dflt | Some v \<Rightarrow> v)"

text \<open>
  The first loop of \<open>_find_crud_patterns\<close>: one step per value of \<open>self.nodes\<close>.
  \<open>name[:-7]\<close> drops the last seven characters.
\<close>

definition group_entity ::
    "CodeNode \<Rightarrow> (string \<times> CodeNode list) list \<Rightarrow> (string \<times> CodeNode list) list" where
  "group_entity node entity_groups =
     (if node_type node = CLASS then
        (if str_endswith (node_name node) ''Manager'' then
           (let entity_name = take (length (node_name node) - 7) (node_name node) in
            AList.update entity_name (dict_get entity_groups entity_name [] @ [node])
              entity_groups)
         else entity_groups)
      else entity_groups)"

definition crud_pattern ::
    "EnhancedCodeGraphServer \<Rightarrow> string \<Rightarrow> CodeNode list \<Rightarrow> CodePattern" where
  "crud_pattern self entity_name ns =
     \<lparr>pattern_id = ''crud_'' @ str_lower entity_name,
      pattern_type = ''database_crud'',
      files = remdups (map node_file_path ns),
      pattern_nodes = ns,
      pattern_relationships =
        filter (\<lambda>rel. list_ex (\<lambda>node. source_id rel = node_id node \<or> target_id rel = node_id node) ns)
          (relationships self),
      template_data =
        [(''entity_name'', PStr entity_name),
         (''table_name'', PStr (entity_name @ ''s'')),
         (''primary_key'', PStr (entity_name @ ''ID'')),
         (''manager_class'', PStr (entity_name @ ''Manager''))],
      similarity_score = 8 / 10\<rparr>"

definition find_crud_patterns :: "EnhancedCodeGraphServer \<Rightarrow> CodePattern list" where
  "find_crud_patterns self =
     (let entity_groups = fold group_entity (map snd (nodes self)) [] in
      concat (map (\<lambda>(entity_name, ns).
                     if 0 < length ns then [crud_pattern self entity_name ns] else [])
                  entity_groups))"

text \<open>
  The loop over \<open>self.relationships\<close> in \<open>_find_page_patterns\<close>, on the pair
  \<open>(related_nodes, related_relationships)\<close>.
\<close>

definition relate ::
    "EnhancedCodeGraphServer \<Rightarrow> CodeNode \<Rightarrow> CodeRelationship
       \<Rightarrow> CodeNode list \<times> CodeRelationship list \<Rightarrow> CodeNode list \<times> CodeRelationship list" where
  "relate self page_node rel acc =
     (case acc of (related_nodes, related_relationships) \<Rightarrow>
        if source_id rel = node_id page_node \<or> target_id rel = node_id page_node then
          (let other_node_id =
                 (if source_id rel = node_id page_node then target_id rel else source_id rel)
           in (case map_of (nodes self) other_node_id of
                 Some other \<Rightarrow> (related_nodes @ [other], related_relationships @ [rel])
               | None \<Rightarrow> (related_nodes, related_relationships @ [rel])))
        else acc)"

definition page_pattern :: "EnhancedCodeGraphServer \<Rightarrow> CodeNode \<Rightarrow> CodePattern list" where
  "page_pattern self page_node =
     (case fold (relate self page_node) (relationships self) ([page_node], []) of
        (related_nodes, related_relationships) \<Rightarrow>
          if 1 < length related_nodes then
            [\<lparr>pattern_id = ''page_'' @ str_lower (node_name page_node),
              pattern_type = ''aspx_page'',
              files = remdups (map node_file_path related_nodes),
              pattern_nodes = related_nodes,
              pattern_relationships = related_relationships,
              template_data =
                [(''page_name'', PStr (node_name page_node)),
                 (''control_count'',
                    PInt (int (length (filter (\<lambda>n. node_type n = ASPX_CONTROL) related_nodes))))],
              similarity_score = 7 / 10\<rparr>]
          else [])"

definition find_page_patterns :: "EnhancedCodeGraphServer \<Rightarrow> CodePattern list" where
  "find_page_patterns self =
     (let aspx_pages = filter (\<lambda>node. node_type node = ASPX_PAGE) (map snd (nodes self)) in
      concat (map (page_pattern self) aspx_pages))"

definition identify_patterns :: "EnhancedCodeGraphServer \<Rightarrow> CodePattern list" where
  "identify_patterns self = find_crud_patterns self @ find_page_patterns self"

section \<open>Analysis entry point\<close>

text \<open>
  \<open>analyze_specific_files\<close> returns its result dictionary and leaves the server in a
  new state. The patterns it identifies are counted; the list is a local variable.
\<close>

definition analyze_specific_files ::
    "filesystem \<Rightarrow> string list \<Rightarrow> EnhancedCodeGraphServer
       \<Rightarrow> analysis_results \<times> EnhancedCodeGraphServer" where
  "analyze_specific_files fs file_paths self =
     (case fold (analyze_one fs) file_paths (analysis_results_init, self) of
        (res, self') \<Rightarrow>
          (let patterns = identify_patterns self' in
           (res\<lparr>patterns_identified := int (length patterns)\<rparr>, self')))"

section \<open>Query and export facade\<close>

text \<open>\<open>type_counts[k] = type_counts.get(k, 0) + 1\<close>\<close>

definition count_type :: "string \<Rightarrow> (string \<times> int) list \<Rightarrow> (string \<times> int) list" where
  "count_type k type_counts = AList.update k (dict_get type_counts k 0 + 1) type_counts"

definition get_node_types_summary :: "EnhancedCodeGraphServer \<Rightarrow> (string \<times> int) list" where
  "get_node_types_summary self =
     fold (\<lambda>node. count_type (NodeType_value (node_type node))) (map snd (nodes self)) []"

definition get_relationship_types_summary ::
    "EnhancedCodeGraphServer \<Rightarrow> (string \<times> int) list" where
  "get_relationship_types_summary self =
     fold (\<lambda>rel. count_type (RelationshipType_value (relationship_type rel)))
       (relationships self) []"

text \<open>
  The document that \<open>export_graph_data\<close> builds, writes as JSON and returns.
\<close>

record export_summary =
  node_types :: "(string \<times> int) list"
  relationship_types :: "(string \<times> int) list"

record export_data =
  export_nodes :: "pyval list"
  export_relationships :: "pyval list"
  export_patterns :: "pyval list"
  summary :: export_summary

definition export_graph_data :: "EnhancedCodeGraphServer \<Rightarrow> export_data" where
  "export_graph_data self =
     \<lparr>export_nodes = map node_to_dict (map snd (nodes self)),
      export_relationships = map rel_to_dict (relationships self),
      export_patterns = map pattern_to_dict (patterns self),
      summary =
        \<lparr>node_types = get_node_types_summary self,
         relationship_types = get_relationship_types_summary self\<rparr>\<rparr>"

text \<open>
  The \<open>find_patterns_by_type\<close> branch of \<open>handle_call_tool\<close>: the dictionaries that are
  serialised into the reply.
\<close>

definition find_patterns_by_type :: "EnhancedCodeGraphServer \<Rightarrow> string \<Rightarrow> pyval list" where
  "find_patterns_by_type self t =
     (let matching_patterns = filter (\<lambda>p. pattern_type p = t) (patterns self) in
      map pattern_to_dict matching_patterns)"

section \<open>Scenario inputs\<close>

text \<open>
  A C# file that declares namespace \<open>App.BusinessLogic\<close>, in it the class
  \<open>CustomerManager\<close>, and in it the public method \<open>GetCustomers\<close>, one declaration
  per line.
\<close>

definition customer_manager_cs :: string where
  "customer_manager_cs = str_join [CHR 0x0A]
     [''namespace App.BusinessLogic'',
      ''{'',
      ''    public class CustomerManager'',
      ''    {'',
      ''        public List<Customer> GetCustomers()'',
      ''        {'',
      ''            return new List<Customer>();'',
      ''        }'',
      ''    }'',
      ''}'']"

text \<open>
  The same class with a stored-procedure call inside the method:
  \<open>SqlCommand cmd = new SqlCommand("sp_GetCustomers", conn);\<close>
\<close>

definition customer_data_cs :: string where
  "customer_data_cs = str_join [CHR 0x0A]
     [''namespace App.BusinessLogic'',
      ''{'',
      ''    public class CustomerManager'',
      ''    {'',
      ''        public List<Customer> GetCustomers()'',
      ''        {'',
      ''            SqlCommand cmd = new SqlCommand('' @ [CHR 0x22] @ ''sp_GetCustomers''
         @ [CHR 0x22] @ '', conn);'',
      ''        }'',
      ''    }'',
      ''}'']"

text \<open>A schema file with a procedure definition followed by a query.\<close>

definition get_customers_sql :: string where
  "get_customers_sql = str_join [CHR 0x0A]
     [''CREATE PROCEDURE sp_GetCustomers'',
      ''AS'',
      ''BEGIN'',
      ''    SELECT * FROM Customers'',
      ''END'']"

text \<open>File systems for the scenarios.\<close>

definition fs_manager :: filesystem where
  "fs_manager = [''src/CustomerManager.cs'' \<mapsto> Text customer_manager_cs]"

definition fs_undecodable :: filesystem where
  "fs_undecodable = [''src/Legacy.cs'' \<mapsto> UnicodeDecodeError]"

section \<open>Auxiliary notions for the statements\<close>

text \<open>
  An invariant of the scan over a C# file: \<open>in_method\<close> is false and none of the
  relationships collected so far is of type \<open>database_access\<close>.
\<close>

definition no_database_access :: "csharp_scan \<Rightarrow> bool" where
  "no_database_access st =
     (\<not> in_method st \<and>
      filter (\<lambda>r. relationship_type r = DATABASE_ACCESS) (cs_relationships st) = [])"

text \<open>
  What the extractors emit for one path: nothing (\<open>None\<close>) when the path does not exist
  or reading it raises an exception that leaves \<open>_analyze_file_detailed\<close>, otherwise
  the nodes and relationships returned. \<open>emitted_nodes\<close> lists the node emissions of a
  whole call in order, repetitions included.
\<close>

definition emitted ::
    "filesystem \<Rightarrow> string \<Rightarrow> (CodeNode list \<times> CodeRelationship list) option" where
  "emitted fs file_path =
     (case fs (path_str (Path file_path)) of
        None \<Rightarrow> None
      | Some rd \<Rightarrow>
          (case analyze_file_detailed (Path file_path) rd of
             Inl e \<Rightarrow> None
           | Inr x \<Rightarrow> Some x))"

definition emitted_nodes :: "filesystem \<Rightarrow> string list \<Rightarrow> CodeNode list" where
  "emitted_nodes fs file_paths =
     concat (map (\<lambda>p. case emitted fs p of None \<Rightarrow> [] | Some (ns, rels) \<Rightarrow> ns) file_paths)"

text \<open>Storing a list of nodes under their ids, one after the other.\<close>

definition upsert_all :: "CodeNode list \<Rightarrow> (string \<times> CodeNode) list \<Rightarrow> (string \<times> CodeNode) list" where
  "upsert_all ns d = fold (\<lambda>n. AList.update (node_id n) n) ns d"

text \<open>One more file analysed.\<close>

definition count_file :: "analysis_results \<Rightarrow> analysis_results" where
  "count_file res = res\<lparr>files_analyzed := files_analyzed res + 1\<rparr>"

definition fs_mixed :: filesystem where
  "fs_mixed = [''src/Legacy.cs'' \<mapsto> UnicodeDecodeError,
               ''src/CustomerManager.cs'' \<mapsto> Text customer_manager_cs]"

text \<open>Reading a key of a dictionary value.\<close>

definition pyval_get :: "pyval \<Rightarrow> string \<Rightarrow> pyval option" where
  "pyval_get d k = (case d of PDict kvs \<Rightarrow> map_of kvs k | _ \<Rightarrow> None)"

text \<open>
  The notions of the CRUD grouping: the class nodes of the store named with the
  \<open>Manager\<close> suffix, the entity name of such a node (the name without the suffix), the
  entity names in the order in which they first occur, and the template of an entity.
\<close>

definition is_manager_class :: "CodeNode \<Rightarrow> bool" where
  "is_manager_class n = (node_type n = CLASS \<and> str_endswith (node_name n) ''Manager'')"

definition entity_of :: "CodeNode \<Rightarrow> string" where
  "entity_of n = take (length (node_name n) - 7) (node_name n)"

definition first_occurrences :: "'a list \<Rightarrow> 'a list" where
  "first_occurrences xs = rev (remdups (rev xs))"

definition manager_group :: "CodeNode list \<Rightarrow> string \<Rightarrow> CodeNode list" where
  "manager_group ns e = filter (\<lambda>n. is_manager_class n \<and> entity_of n = e) ns"

definition entities :: "CodeNode list \<Rightarrow> string list" where
  "entities ns = first_occurrences (map entity_of (filter is_manager_class ns))"

definition crud_template :: "string \<Rightarrow> (string \<times> pyval) list" where
  "crud_template e =
     [(''entity_name'', PStr e),
      (''table_name'', PStr (e @ ''s'')),
      (''primary_key'', PStr (e @ ''ID'')),
      (''manager_class'', PStr (e @ ''Manager''))]"

definition entity_name_of :: "CodePattern \<Rightarrow> pyval option" where
  "entity_name_of p = map_of (template_data p) ''entity_name''"

text \<open>A store with the two class nodes \<open>ProductManager\<close> and \<open>CustomerManager\<close>.\<close>

definition class_node :: "string \<Rightarrow> string \<Rightarrow> CodeNode" where
  "class_node fp class_name =
     \<lparr>node_id = fp @ '':class:'' @ class_name,
      node_name = class_name,
      node_type = CLASS,
      node_file_path = fp,
      node_line_number = 1,
      node_metadata = [(''namespace'', PNone), (''access_modifier'', PStr ''public'')]\<rparr>"

definition two_managers :: EnhancedCodeGraphServer where
  "two_managers =
     \<lparr>nodes =
        [(''ProductManager.cs:class:ProductManager'',
            class_node ''ProductManager.cs'' ''ProductManager''),
         (''CustomerManager.cs:class:CustomerManager'',
            class_node ''CustomerManager.cs'' ''CustomerManager'')],
      relationships = [],
      patterns = []\<rparr>"

text \<open>
  The notions of the page grouping: a relationship touches a page when the page is its
  source or its target; its other end is the id at the opposite side; the nodes
  connected to a page are the stored nodes at the other ends of the relationships that
  touch it, one entry for each such relationship.
\<close>

definition touches :: "CodeRelationship \<Rightarrow> CodeNode \<Rightarrow> bool" where
  "touches rel page = (source_id rel = node_id page \<or> target_id rel = node_id page)"

definition other_end :: "CodeRelationship \<Rightarrow> CodeNode \<Rightarrow> string" where
  "other_end rel page =
     (if source_id rel = node_id page then target_id rel else source_id rel)"

definition connected_via ::
    "EnhancedCodeGraphServer \<Rightarrow> CodeNode \<Rightarrow> CodeRelationship list \<Rightarrow> CodeNode list" where
  "connected_via self page rels =
     concat (map (\<lambda>rel. if touches rel page
                          then (case map_of (nodes self) (other_end rel page) of
                                  Some n \<Rightarrow> [n]
                                | None \<Rightarrow> [])
                          else []) rels)"

definition connected_nodes :: "EnhancedCodeGraphServer \<Rightarrow> CodeNode \<Rightarrow> CodeNode list" where
  "connected_nodes self page = connected_via self page (relationships self)"

definition aspx_pages :: "EnhancedCodeGraphServer \<Rightarrow> CodeNode list" where
  "aspx_pages self = filter (\<lambda>node. node_type node = ASPX_PAGE) (map snd (nodes self))"

definition count_controls :: "CodeNode list \<Rightarrow> int" where
  "count_controls ns = int (length (filter (\<lambda>n. node_type n = ASPX_CONTROL) ns))"

definition control_count_of :: "CodePattern \<Rightarrow> pyval option" where
  "control_count_of p = map_of (template_data p) ''control_count''"

text \<open>
  The control nodes related to a page, in the words of the specification: the control
  nodes of the store that some relationship joins to the page.
\<close>

definition related_control_nodes ::
    "EnhancedCodeGraphServer \<Rightarrow> CodeNode \<Rightarrow> CodeNode list" where
  "related_control_nodes self page =
     filter (\<lambda>n. node_type n = ASPX_CONTROL \<and>
                 list_ex (\<lambda>rel. touches rel page \<and> other_end rel page = node_id n)
                   (relationships self))
       (map snd (nodes self))"

text \<open>
  A page with one control,
  \<open><asp:Button runat="server" ID="btnSave" />\<close>, and the state after the page has been
  analysed twice.
\<close>

definition orders_aspx :: string where
  "orders_aspx = str_join [CHR 0x0A]
     [''<%@ Page Language=C# %>'',
      ''<asp:Button runat=server ID='' @ [CHR 0x22] @ ''btnSave'' @ [CHR 0x22] @ '' />'']"

definition fs_page :: filesystem where
  "fs_page = [''web/Orders.aspx'' \<mapsto> Text orders_aspx]"

definition orders_page :: CodeNode where
  "orders_page =
     \<lparr>node_id = ''web/Orders.aspx:page:Orders'',
      node_name = ''Orders'',
      node_type = ASPX_PAGE,
      node_file_path = ''web/Orders.aspx'',
      node_line_number = 1,
      node_metadata = [(''page_type'', PStr ''aspx'')]\<rparr>"

definition orders_twice :: EnhancedCodeGraphServer where
  "orders_twice =
     snd (analyze_specific_files fs_page [''web/Orders.aspx'', ''web/Orders.aspx'']
            init_server)"

text \<open>
  What the four detections of the C# scan see in a stripped line, apart from the scan
  state: the name captured by the namespace pattern, by the class pattern and by the
  method pattern (on a line that does not start with \<open>//\<close>), and the name of the stored
  procedure when the line holds a data-access keyword and its first quoted identifier
  starts with \<open>sp_\<close> or \<open>usp_\<close>.
\<close>

definition captured :: "rx \<Rightarrow> string \<Rightarrow> string option" where
  "captured r s = (case re_match r s of None \<Rightarrow> None | Some (g, rest) \<Rightarrow> Some (match_group g 1))"

definition called_procedure :: "string \<Rightarrow> string option" where
  "called_procedure s =
     (if list_ex (\<lambda>keyword. str_contains s keyword) database_keywords then
        (case re_search quoted_rx s of
           None \<Rightarrow> None
         | Some (g, rest) \<Rightarrow>
             if str_startswith (match_group g 1) ''sp_'' \<or> str_startswith (match_group g 1) ''usp_''
             then Some (match_group g 1) else None)
      else None)"

definition recognise ::
    "string \<Rightarrow> string option \<times> string option \<times> string option \<times> string option" where
  "recognise line =
     (let s = str_strip line in
      (captured namespace_rx s,
       captured class_rx s,
       (if str_startswith s ''//'' then None else captured method_rx s),
       called_procedure s))"

text \<open>A line in which the scan recognises nothing.\<close>

definition unrecognised :: "string \<Rightarrow> bool" where
  "unrecognised line = (recognise line = (None, None, None, None))"

text \<open>The type, name and id of a node; the source, type and target of a relationship.\<close>

definition node_key :: "CodeNode \<Rightarrow> NodeType \<times> string \<times> string" where
  "node_key n = (node_type n, node_name n, node_id n)"

definition rel_key :: "CodeRelationship \<Rightarrow> string \<times> RelationshipType \<times> string" where
  "rel_key r = (source_id r, relationship_type r, target_id r)"

text \<open>The variables of the C# scan that the detections read, with what they have collected.\<close>

definition scan_view ::
    "csharp_scan \<Rightarrow>
       CodeNode list \<times> CodeRelationship list \<times> string option \<times> string option \<times> bool" where
  "scan_view st =
     (cs_nodes st, cs_relationships st, current_namespace st, current_class st, in_method st)"

text \<open>The text of the specification's scenario, all declarations on one line.\<close>

definition customer_manager_one_line :: string where
  "customer_manager_one_line =
     ''namespace App.BusinessLogic { class CustomerManager { public List<Customer> GetCustomers() { } } }''"

section \<open>Extractor scenarios\<close>

text \<open>
  C5 as stated does not hold for every file with these three declarations: when they
  stand on one line, as in the text of the scenario, the extractor finds the namespace
  only, since each pattern is matched at the start of a stripped line.
\<close>

theorem csharp_one_line_only_namespace:
  "map node_type
     (fst (analyze_csharp_detailed (Path ''src/CustomerManager.cs'') customer_manager_one_line))
     = [NAMESPACE]
   \<and> snd (analyze_csharp_detailed (Path ''src/CustomerManager.cs'') customer_manager_one_line)
     = []"
  by code_simp

lemma captured_None: "(captured r s = None) = (re_match r s = None)"
  by (simp add: captured_def split: option.splits)

lemma captured_Some:
  "captured r s = Some x \<Longrightarrow> \<exists>g rest. re_match r s = Some (g, rest) \<and> match_group g 1 = x"
  by (auto simp: captured_def split: option.splits)

lemma detect_namespace_None:
  "captured namespace_rx s = None \<Longrightarrow> detect_namespace fp n s st = st"
  by (simp add: captured_None detect_namespace_def)

lemma detect_class_None:
  "captured class_rx s = None \<Longrightarrow> detect_class fp n s st = st"
  by (simp add: captured_None detect_class_def)

lemma detect_method_None:
  "(if str_startswith s ''//'' then None else captured method_rx s) = None \<Longrightarrow>
     detect_method fp n s st = st"
  by (auto simp: captured_None detect_method_def split: option.splits if_splits)

lemma detect_database_access_None:
  "called_procedure s = None \<Longrightarrow> detect_database_access fp n s st = st"
  by (auto simp: called_procedure_def detect_database_access_def
      split: option.splits if_splits)

lemma scan_view_count_braces: "scan_view (count_braces s st) = scan_view st"
  by (simp add: scan_view_def count_braces_def)

lemma csharp_line_unrecognised:
  assumes "unrecognised l"
  shows "scan_view (csharp_line fp (n, l) st) = scan_view st"
  using assms
  by (simp add: unrecognised_def recognise_def csharp_line_def Let_def
      detect_namespace_None detect_class_None detect_method_None
      detect_database_access_None scan_view_count_braces)

lemma csharp_line_namespace:
  assumes "recognise l = (Some name, None, None, None)"
  shows "scan_view (csharp_line fp (n, l) st) =
     (case scan_view st of (ns, rels, cn, cc, im) \<Rightarrow>
        (ns @ [\<lparr>node_id = fp @ '':namespace:'' @ name,
                 node_name = name,
                 node_type = NAMESPACE,
                 node_file_path = fp,
                 node_line_number = n,
                 node_metadata = [(''scope'', PStr ''namespace'')]\<rparr>],
         rels, Some name, cc, im))"
proof -
  from assms obtain g rest where
    m: "re_match namespace_rx (str_strip l) = Some (g, rest)" "match_group g 1 = name"
    by (auto simp: recognise_def Let_def dest: captured_Some)
  from assms have rest:
    "captured class_rx (str_strip l) = None"
    "(if str_startswith (str_strip l) ''//'' then None
      else captured method_rx (str_strip l)) = None"
    "called_procedure (str_strip l) = None"
    by (simp_all add: recognise_def Let_def)
  show ?thesis
    by (simp add: csharp_line_def Let_def detect_class_None detect_method_None
        detect_database_access_None rest)
      (insert m, simp add: detect_namespace_def scan_view_def count_braces_def Let_def)
qed

lemma csharp_line_class:
  assumes "recognise l = (None, Some name, None, None)"
  shows "scan_view (csharp_line fp (n, l) st) =
     (case scan_view st of (ns, rels, cn, cc, im) \<Rightarrow>
        (ns @ [\<lparr>node_id = fp @ '':class:'' @ name,
                 node_name = name,
                 node_type = CLASS,
                 node_file_path = fp,
                 node_line_number = n,
                 node_metadata =
                   [(''namespace'', opt_str cn),
                    (''access_modifier'', PStr (extract_access_modifier (str_strip l)))]\<rparr>],
         rels @ (if truthy cn then
                   [\<lparr>source_id = fp @ '':namespace:'' @ the cn,
                     target_id = fp @ '':class:'' @ name,
                     relationship_type = CONTAINS,
                     rel_metadata = [(''scope'', PStr ''namespace_contains_class'')],
                     confidence = 1\<rparr>]
                 else []),
         cn, Some name, im))"
proof -
  from assms obtain g rest where
    m: "re_match class_rx (str_strip l) = Some (g, rest)" "match_group g 1 = name"
    by (auto simp: recognise_def Let_def dest: captured_Some)
  from assms have rest:
    "captured namespace_rx (str_strip l) = None"
    "(if str_startswith (str_strip l) ''//'' then None
      else captured method_rx (str_strip l)) = None"
    "called_procedure (str_strip l) = None"
    by (simp_all add: recognise_def Let_def)
  show ?thesis
    by (simp add: csharp_line_def Let_def detect_namespace_None detect_method_None
        detect_database_access_None rest)
      (insert m, simp add: detect_class_def scan_view_def count_braces_def Let_def)
qed

lemma csharp_line_method:
  assumes "recognise l = (None, None, Some name, None)"
  shows "scan_view (csharp_line fp (n, l) st) =
     (case scan_view st of (ns, rels, cn, cc, im) \<Rightarrow>
        if truthy cc then
          (ns @ [\<lparr>node_id = fp @ '':method:'' @ the cc @ '':'' @ name,
                   node_name = name,
                   node_type = METHOD,
                   node_file_path = fp,
                   node_line_number = n,
                   node_metadata =
                     [(''class'', PStr (the cc)),
                      (''access_modifier'', PStr (extract_access_modifier (str_strip l))),
                      (''is_static'', PBool (str_contains (str_strip l) ''static'')),
                      (''is_async'', PBool (str_contains (str_strip l) ''async''))]\<rparr>],
           rels @ [\<lparr>source_id = fp @ '':class:'' @ the cc,
                     target_id = fp @ '':method:'' @ the cc @ '':'' @ name,
                     relationship_type = CONTAINS,
                     rel_metadata = [(''scope'', PStr ''class_contains_method'')],
                     confidence = 1\<rparr>],
           cn, cc, im)
        else (ns, rels, cn, cc, im))"
proof -
  from assms have start: "\<not> str_startswith (str_strip l) ''//''"
    by (auto simp: recognise_def Let_def split: if_splits)
  with assms obtain g rest where
    m: "re_match method_rx (str_strip l) = Some (g, rest)" "match_group g 1 = name"
    by (auto simp: recognise_def Let_def dest: captured_Some)
  from assms have rest:
    "captured namespace_rx (str_strip l) = None"
    "captured class_rx (str_strip l) = None"
    "called_procedure (str_strip l) = None"
    by (simp_all add: recognise_def Let_def)
  show ?thesis
    by (simp add: csharp_line_def Let_def detect_namespace_None detect_class_None
        detect_database_access_None rest)
      (insert m start, simp add: detect_method_def scan_view_def count_braces_def Let_def)
qed

lemma fold_csharp_line_unrecognised:
  "list_all unrecognised ls \<Longrightarrow>
     scan_view (fold (csharp_line fp) (zip nums ls) st) = scan_view st"
proof (induction ls arbitrary: nums st)
  case Nil
  show ?case by simp
next
  case (Cons l ls)
  show ?case
  proof (cases nums)
    case Nil
    then show ?thesis by simp
  next
    case (Cons n nums')
    with Cons.prems Cons.IH [of nums' "csharp_line fp (n, l) st"] show ?thesis
      by (simp add: csharp_line_unrecognised)
  qed
qed

lemma zip_around:
  assumes "length nums = length (xs @ y # ys)"
  shows "\<exists>as n bs. zip nums (xs @ y # ys) = zip as xs @ (n, y) # zip bs ys
           \<and> length bs = length ys"
proof -
  from assms have "drop (length xs) nums \<noteq> []" by simp
  then obtain n bs where d: "drop (length xs) nums = n # bs"
    by (cases "drop (length xs) nums") auto
  from assms have "length (drop (length xs) nums) = Suc (length ys)" by simp
  with d have "length bs = length ys" by simp
  moreover have "zip nums (xs @ y # ys) =
      zip (take (length xs) nums) xs @ (n, y) # zip bs ys"
    by (simp add: zip_append2 d)
  ultimately show ?thesis by blast
qed


lemma analyze_csharp_detailed_scan_view:
  "analyze_csharp_detailed file_path content =
     (let v = scan_view (fold (csharp_line (path_str file_path))
                (zip (map int [1 ..< Suc (length (str_split content CHR 0x0A))])
                   (str_split content CHR 0x0A)) csharp_scan_init)
      in (fst v, fst (snd v)))"
  by (simp add: analyze_csharp_detailed_def enumerate1_def scan_view_def Let_def)

text \<open>
  C5, amended. When the extractor recognises the namespace \<open>App.BusinessLogic\<close>, the
  class \<open>CustomerManager\<close> and the method \<open>GetCustomers\<close> each on a line of its own, in
  this order, and recognises nothing in any other line of the file, it yields exactly one
  namespace node, one class node and one method node, and exactly two \<open>contains\<close>
  relationships: namespace to class and class to method.
\<close>

theorem csharp_scenario_one_declaration_per_line:
  assumes "str_split content CHR 0x0A = pre @ l1 # mid1 @ l2 # mid2 @ l3 # post"
    and "list_all unrecognised pre" and "list_all unrecognised mid1"
    and "list_all unrecognised mid2" and "list_all unrecognised post"
    and "recognise l1 = (Some ''App.BusinessLogic'', None, None, None)"
    and "recognise l2 = (None, Some ''CustomerManager'', None, None)"
    and "recognise l3 = (None, None, Some ''GetCustomers'', None)"
  shows "map node_key (fst (analyze_csharp_detailed file_path content)) =
      [(NAMESPACE, ''App.BusinessLogic'',
          path_str file_path @ '':namespace:App.BusinessLogic''),
       (CLASS, ''CustomerManager'', path_str file_path @ '':class:CustomerManager''),
       (METHOD, ''GetCustomers'',
          path_str file_path @ '':method:CustomerManager:GetCustomers'')]
    \<and> map rel_key (snd (analyze_csharp_detailed file_path content)) =
      [(path_str file_path @ '':namespace:App.BusinessLogic'', CONTAINS,
          path_str file_path @ '':class:CustomerManager''),
       (path_str file_path @ '':class:CustomerManager'', CONTAINS,
          path_str file_path @ '':method:CustomerManager:GetCustomers'')]"
proof -
  let ?lines = "str_split content CHR 0x0A"
  let ?nums = "map int [1 ..< Suc (length ?lines)]"
  let ?fp = "path_str file_path"
  have "length ?nums = length ?lines"
    by (simp only: length_map length_upt diff_Suc_1)
  then have len: "length ?nums = length (pre @ l1 # (mid1 @ l2 # mid2 @ l3 # post))"
    by (simp only: assms(1))
  from zip_around [OF len] obtain a n1 b where
    z1: "zip ?nums (pre @ l1 # (mid1 @ l2 # mid2 @ l3 # post)) =
           zip a pre @ (n1, l1) # zip b (mid1 @ l2 # mid2 @ l3 # post)"
    and lb: "length b = length (mid1 @ l2 # (mid2 @ l3 # post))"
    by auto
  from zip_around [OF lb] obtain c n2 d where
    z2: "zip b (mid1 @ l2 # (mid2 @ l3 # post)) =
           zip c mid1 @ (n2, l2) # zip d (mid2 @ l3 # post)"
    and ld: "length d = length (mid2 @ l3 # post)"
    by auto
  from zip_around [OF ld] obtain e n3 f where
    z3: "zip d (mid2 @ l3 # post) = zip e mid2 @ (n3, l3) # zip f post"
    by auto
  have whole: "zip ?nums ?lines =
      zip a pre @ (n1, l1) # zip c mid1 @ (n2, l2) # zip e mid2 @ (n3, l3) # zip f post"
    using z1 z2 z3 assms(1) by simp
  have init: "scan_view csharp_scan_init = ([], [], None, None, False)"
    by (simp add: scan_view_def csharp_scan_init_def)
  have "scan_view (fold (csharp_line ?fp) (zip ?nums ?lines) csharp_scan_init) =
      ([\<lparr>node_id = ?fp @ '':namespace:'' @ ''App.BusinessLogic'',
          node_name = ''App.BusinessLogic'',
          node_type = NAMESPACE,
          node_file_path = ?fp,
          node_line_number = n1,
          node_metadata = [(''scope'', PStr ''namespace'')]\<rparr>,
        \<lparr>node_id = ?fp @ '':class:'' @ ''CustomerManager'',
          node_name = ''CustomerManager'',
          node_type = CLASS,
          node_file_path = ?fp,
          node_line_number = n2,
          node_metadata =
            [(''namespace'', PStr ''App.BusinessLogic''),
             (''access_modifier'', PStr (extract_access_modifier (str_strip l2)))]\<rparr>,
        \<lparr>node_id = ?fp @ '':method:'' @ ''CustomerManager'' @ '':'' @ ''GetCustomers'',
          node_name = ''GetCustomers'',
          node_type = METHOD,
          node_file_path = ?fp,
          node_line_number = n3,
          node_metadata =
            [(''class'', PStr ''CustomerManager''),
             (''access_modifier'', PStr (extract_access_modifier (str_strip l3))),
             (''is_static'', PBool (str_contains (str_strip l3) ''static'')),
             (''is_async'', PBool (str_contains (str_strip l3) ''async''))]\<rparr>],
       [\<lparr>source_id = ?fp @ '':namespace:'' @ ''App.BusinessLogic'',
          target_id = ?fp @ '':class:'' @ ''CustomerManager'',
          relationship_type = CONTAINS,
          rel_metadata = [(''scope'', PStr ''namespace_contains_class'')],
          confidence = 1\<rparr>,
        \<lparr>source_id = ?fp @ '':class:'' @ ''CustomerManager'',
          target_id = ?fp @ '':method:'' @ ''CustomerManager'' @ '':'' @ ''GetCustomers'',
          relationship_type = CONTAINS,
          rel_metadata = [(''scope'', PStr ''class_contains_method'')],
          confidence = 1\<rparr>],
       Some ''App.BusinessLogic'', Some ''CustomerManager'', False)"
    unfolding whole
    by (simp add: fold_csharp_line_unrecognised assms(2-5) csharp_line_namespace [OF assms(6)]
        csharp_line_class [OF assms(7)] csharp_line_method [OF assms(8)] init truthy_def
        opt_str_def)
  then show ?thesis
    by (simp add: analyze_csharp_detailed_scan_view Let_def node_key_def rel_key_def)
qed

theorem csharp_scenario_one_declaration_per_line_witness:
  "str_split customer_manager_cs CHR 0x0A =
     [] @ ''namespace App.BusinessLogic'' # [''{''] @ ''    public class CustomerManager''
       # [''    {''] @ ''        public List<Customer> GetCustomers()''
       # [''        {'', ''            return new List<Customer>();'', ''        }'',
          ''    }'', ''}'']
   \<and> list_all unrecognised [] \<and> list_all unrecognised [''{'']
   \<and> list_all unrecognised [''    {'']
   \<and> list_all unrecognised
         [''        {'', ''            return new List<Customer>();'', ''        }'',
          ''    }'', ''}'']
   \<and> recognise ''namespace App.BusinessLogic'' = (Some ''App.BusinessLogic'', None, None, None)
   \<and> recognise ''    public class CustomerManager'' =
         (None, Some ''CustomerManager'', None, None)
   \<and> recognise ''        public List<Customer> GetCustomers()'' =
         (None, None, Some ''GetCustomers'', None)
   \<and> map node_key
         (fst (analyze_csharp_detailed (Path ''src/CustomerManager.cs'') customer_manager_cs)) =
      [(NAMESPACE, ''App.BusinessLogic'',
          path_str (Path ''src/CustomerManager.cs'') @ '':namespace:App.BusinessLogic''),
       (CLASS, ''CustomerManager'',
          path_str (Path ''src/CustomerManager.cs'') @ '':class:CustomerManager''),
       (METHOD, ''GetCustomers'',
          path_str (Path ''src/CustomerManager.cs'')
            @ '':method:CustomerManager:GetCustomers'')]
   \<and> map rel_key
         (snd (analyze_csharp_detailed (Path ''src/CustomerManager.cs'') customer_manager_cs)) =
      [(path_str (Path ''src/CustomerManager.cs'') @ '':namespace:App.BusinessLogic'', CONTAINS,
          path_str (Path ''src/CustomerManager.cs'') @ '':class:CustomerManager''),
       (path_str (Path ''src/CustomerManager.cs'') @ '':class:CustomerManager'', CONTAINS,
          path_str (Path ''src/CustomerManager.cs'')
            @ '':method:CustomerManager:GetCustomers'')]"
proof -
  have h1: "str_split customer_manager_cs CHR 0x0A =
     [] @ ''namespace App.BusinessLogic'' # [''{''] @ ''    public class CustomerManager''
       # [''    {''] @ ''        public List<Customer> GetCustomers()''
       # [''        {'', ''            return new List<Customer>();'', ''        }'',
          ''    }'', ''}'']"
    by code_simp
  have h2: "list_all unrecognised []"
    by simp
  have h3: "list_all unrecognised [''{'']"
    by code_simp
  have h4: "list_all unrecognised [''    {'']"
    by code_simp
  have h5: "list_all unrecognised
         [''        {'', ''            return new List<Customer>();'', ''        }'',
          ''    }'', ''}'']"
    by code_simp
  have h6: "recognise ''namespace App.BusinessLogic'' =
      (Some ''App.BusinessLogic'', None, None, None)"
    by code_simp
  have h7: "recognise ''    public class CustomerManager'' =
      (None, Some ''CustomerManager'', None, None)"
    by code_simp
  have h8: "recognise ''        public List<Customer> GetCustomers()'' =
      (None, None, Some ''GetCustomers'', None)"
    by code_simp
  show ?thesis
    using h1 h2 h3 h4 h5 h6 h7 h8
      csharp_scenario_one_declaration_per_line
        [OF h1 h2 h3 h4 h5 h6 h7 h8, of "Path ''src/CustomerManager.cs''"]
    by blast
qed

text \<open>
  C4. For the schema file \<open>get_customers_sql\<close> the SQL extractor yields one
  stored-procedure node and one table node, and no relationship. Both names are taken
  from the upper-cased line: the table node is named \<open>CUSTOMERS\<close>, the procedure node
  \<open>SP_GETCUSTOMERS\<close>.
\<close>

theorem sql_scenario_names_upper_cased:
  "(case analyze_sql_detailed (Path ''db/procs.sql'') get_customers_sql of
      (ns, rels) \<Rightarrow> (map (\<lambda>n. (node_type n, node_name n, node_id n)) ns, rels))
   = ([(STORED_PROCEDURE, ''SP_GETCUSTOMERS'', ''database:procedure:SP_GETCUSTOMERS''),
       (TABLE, ''CUSTOMERS'', ''database:table:CUSTOMERS'')],
      [])"
  by code_simp

section \<open>Database access in C# files\<close>

lemma count_braces_no_database_access:
  "no_database_access st \<Longrightarrow> no_database_access (count_braces l st)"
  by (simp add: no_database_access_def count_braces_def)

lemma detect_namespace_no_database_access:
  "no_database_access st \<Longrightarrow> no_database_access (detect_namespace fp n l st)"
  by (simp add: no_database_access_def detect_namespace_def Let_def split: option.splits)

lemma detect_class_no_database_access:
  "no_database_access st \<Longrightarrow> no_database_access (detect_class fp n l st)"
  by (simp add: no_database_access_def detect_class_def Let_def split: option.splits)

lemma detect_method_no_database_access:
  "no_database_access st \<Longrightarrow> no_database_access (detect_method fp n l st)"
  by (simp add: no_database_access_def detect_method_def Let_def split: option.splits)

lemma detect_database_access_no_database_access:
  "no_database_access st \<Longrightarrow> no_database_access (detect_database_access fp n l st)"
  by (simp add: no_database_access_def detect_database_access_def Let_def
      split: option.splits)

lemma csharp_line_no_database_access:
  "no_database_access st \<Longrightarrow> no_database_access (csharp_line fp nl st)"
  unfolding csharp_line_def Let_def
  by (intro detect_database_access_no_database_access detect_method_no_database_access
      detect_class_no_database_access detect_namespace_no_database_access
      count_braces_no_database_access)

lemma fold_csharp_line_no_database_access:
  "no_database_access st \<Longrightarrow> no_database_access (fold (csharp_line fp) nls st)"
  by (induction nls arbitrary: st) (simp_all add: csharp_line_no_database_access)

lemma analyze_csharp_no_database_access:
  "filter (\<lambda>r. relationship_type r = DATABASE_ACCESS)
     (snd (analyze_csharp_detailed file_path content)) = []"
proof -
  have "no_database_access csharp_scan_init"
    by (simp add: no_database_access_def csharp_scan_init_def)
  then have "no_database_access
      (fold (csharp_line (path_str file_path)) (enumerate1 (str_split content CHR 0x0A))
         csharp_scan_init)"
    by (rule fold_csharp_line_no_database_access)
  then show ?thesis
    by (simp add: analyze_csharp_detailed_def Let_def no_database_access_def)
qed

text \<open>
  C2. On \<open>customer_data_cs\<close>, whose method body holds
  \<open>new SqlCommand("sp_GetCustomers", conn)\<close>, the C# extractor creates the
  stored-procedure node and emits the two \<open>contains\<close> relationships only; and on no
  file at all does it emit a \<open>database_access\<close> relationship.
\<close>

theorem csharp_emits_no_database_access:
  "(case analyze_csharp_detailed (Path ''src/CustomerManager.cs'') customer_data_cs of
      (ns, rels) \<Rightarrow> (map (\<lambda>n. (node_type n, node_id n)) ns, map relationship_type rels))
   = ([(NAMESPACE, ''src/CustomerManager.cs:namespace:App.BusinessLogic''),
       (CLASS, ''src/CustomerManager.cs:class:CustomerManager''),
       (METHOD, ''src/CustomerManager.cs:method:CustomerManager:GetCustomers''),
       (STORED_PROCEDURE, ''database:procedure:sp_GetCustomers'')],
      [CONTAINS, CONTAINS])
   \<and> filter (\<lambda>r. relationship_type r = DATABASE_ACCESS)
         (snd (analyze_csharp_detailed file_path content)) = []"
proof
  show "(case analyze_csharp_detailed (Path ''src/CustomerManager.cs'') customer_data_cs of
      (ns, rels) \<Rightarrow> (map (\<lambda>n. (node_type n, node_id n)) ns, map relationship_type rels))
   = ([(NAMESPACE, ''src/CustomerManager.cs:namespace:App.BusinessLogic''),
       (CLASS, ''src/CustomerManager.cs:class:CustomerManager''),
       (METHOD, ''src/CustomerManager.cs:method:CustomerManager:GetCustomers''),
       (STORED_PROCEDURE, ''database:procedure:sp_GetCustomers'')],
      [CONTAINS, CONTAINS])"
    by code_simp
  show "filter (\<lambda>r. relationship_type r = DATABASE_ACCESS)
         (snd (analyze_csharp_detailed file_path content)) = []"
    by (rule analyze_csharp_no_database_access)
qed

section \<open>The scanner loop\<close>

lemma fold_add_node:
  "fold add_node ns (res, self) =
     (res\<lparr>nodes_created := nodes_created res + int (length ns)\<rparr>,
      self\<lparr>nodes := upsert_all ns (nodes self)\<rparr>)"
  by (induction ns arbitrary: res self) (simp_all add: add_node_def upsert_all_def)

lemma fold_add_relationship:
  "fold add_relationship rels (res, self) =
     (res\<lparr>relationships_found := relationships_found res + int (length rels)\<rparr>,
      self\<lparr>relationships := relationships self @ rels\<rparr>)"
  by (induction rels arbitrary: res self) (simp_all add: add_relationship_def)

lemma analyze_one_emitted:
  assumes "emitted fs p = Some (ns, rels)"
  shows "analyze_one fs p (res, self) =
     (res\<lparr>nodes_created := nodes_created res + int (length ns),
          relationships_found := relationships_found res + int (length rels),
          files_analyzed := files_analyzed res + 1\<rparr>,
      self\<lparr>nodes := upsert_all ns (nodes self),
           relationships := relationships self @ rels\<rparr>)"
  using assms
  by (auto simp: emitted_def analyze_one_def Let_def fold_add_node fold_add_relationship
      split: option.splits sum.splits)

lemma analyze_one_not_emitted:
  assumes "emitted fs p = None"
  shows "\<exists>msg. analyze_one fs p (res, self) = (res\<lparr>errors := errors res @ [msg]\<rparr>, self)"
  using assms
  by (auto simp: emitted_def analyze_one_def Let_def split: option.splits sum.splits)

lemma fold_analyze_one_state:
  "snd (fold (analyze_one fs) ps (res, self)) =
     self\<lparr>nodes := upsert_all (emitted_nodes fs ps) (nodes self),
          relationships := relationships (snd (fold (analyze_one fs) ps (res, self)))\<rparr>"
proof (induction ps arbitrary: res self)
  case Nil
  show ?case by (simp add: emitted_nodes_def upsert_all_def)
next
  case (Cons p ps)
  show ?case
  proof (cases "emitted fs p")
    case None
    then obtain msg where
      "analyze_one fs p (res, self) = (res\<lparr>errors := errors res @ [msg]\<rparr>, self)"
      using analyze_one_not_emitted by blast
    with None Cons.IH [of "res\<lparr>errors := errors res @ [msg]\<rparr>" self] show ?thesis
      by (simp add: emitted_nodes_def)
  next
    case (Some x)
    obtain ns rels where x: "x = (ns, rels)" by (cases x)
    from Some x have step: "analyze_one fs p (res, self) =
       (res\<lparr>nodes_created := nodes_created res + int (length ns),
            relationships_found := relationships_found res + int (length rels),
            files_analyzed := files_analyzed res + 1\<rparr>,
        self\<lparr>nodes := upsert_all ns (nodes self),
             relationships := relationships self @ rels\<rparr>)"
      by (simp add: analyze_one_emitted)
    have nodes: "emitted_nodes fs (p # ps) = ns @ emitted_nodes fs ps"
      using Some x by (simp add: emitted_nodes_def)
    show ?thesis
      unfolding fold_simps step nodes
      by (subst Cons.IH) (simp add: upsert_all_def)
  qed
qed

lemma fold_analyze_one_nodes_created:
  "nodes_created (fst (fold (analyze_one fs) ps (res, self))) =
     nodes_created res + int (length (emitted_nodes fs ps))"
proof (induction ps arbitrary: res self)
  case Nil
  show ?case by (simp add: emitted_nodes_def)
next
  case (Cons p ps)
  show ?case
  proof (cases "emitted fs p")
    case None
    then obtain msg where
      "analyze_one fs p (res, self) = (res\<lparr>errors := errors res @ [msg]\<rparr>, self)"
      using analyze_one_not_emitted by blast
    with None Cons.IH [of "res\<lparr>errors := errors res @ [msg]\<rparr>" self] show ?thesis
      by (simp add: emitted_nodes_def)
  next
    case (Some x)
    obtain ns rels where x: "x = (ns, rels)" by (cases x)
    have nodes: "emitted_nodes fs (p # ps) = ns @ emitted_nodes fs ps"
      using Some x by (simp add: emitted_nodes_def)
    from Some x show ?thesis
      by (simp add: analyze_one_emitted Cons.IH nodes)
  qed
qed

lemma analyze_specific_files_split:
  "analyze_specific_files fs ps self =
     ((fst (fold (analyze_one fs) ps (analysis_results_init, self)))
        \<lparr>patterns_identified :=
           int (length (identify_patterns
             (snd (fold (analyze_one fs) ps (analysis_results_init, self)))))\<rparr>,
      snd (fold (analyze_one fs) ps (analysis_results_init, self)))"
  by (simp add: analyze_specific_files_def Let_def split: prod.splits)

lemma analyze_specific_files_nodes:
  "nodes (snd (analyze_specific_files fs ps self)) =
     upsert_all (emitted_nodes fs ps) (nodes self)"
  by (subst analyze_specific_files_split, simp, subst fold_analyze_one_state, simp)

lemma analyze_specific_files_patterns:
  "patterns (snd (analyze_specific_files fs ps self)) = patterns self"
  by (subst analyze_specific_files_split, simp, subst fold_analyze_one_state, simp)

section \<open>Upserts\<close>

lemma update_update_swap:
  "k \<noteq> k' \<Longrightarrow> k' \<in> fst ` set d \<Longrightarrow>
     AList.update k' v' (AList.update k v d) = AList.update k v (AList.update k' v' d)"
  by (induction d) auto

lemma keys_upsert_all:
  "fst ` set (upsert_all ns d) = fst ` set d \<union> node_id ` set ns"
  unfolding upsert_all_def
  by (induction ns arbitrary: d) (auto simp: dom_update)

lemma distinct_upsert_all:
  "distinct (map fst d) \<Longrightarrow> distinct (map fst (upsert_all ns d))"
  unfolding upsert_all_def
  by (induction ns arbitrary: d) (simp_all add: distinct_update)

lemma upsert_all_absorbs_update:
  "node_id ` set ns \<subseteq> fst ` set d \<Longrightarrow>
     AList.update k v (upsert_all ns (AList.update k w d)) =
     AList.update k v (upsert_all ns d)"
proof (induction ns arbitrary: d)
  case Nil
  show ?case by (simp add: upsert_all_def)
next
  case (Cons n ns)
  from Cons.prems have n: "node_id n \<in> fst ` set d" and
    ns: "node_id ` set ns \<subseteq> fst ` set (AList.update (node_id n) n d)"
    by (auto simp: dom_update)
  show ?case
  proof (cases "node_id n = k")
    case True
    then show ?thesis by (simp add: upsert_all_def)
  next
    case False
    then have "AList.update (node_id n) n (AList.update k w d) =
        AList.update k w (AList.update (node_id n) n d)"
      using n by (simp add: update_update_swap)
    then show ?thesis
      using Cons.IH [OF ns] by (simp add: upsert_all_def)
  qed
qed

lemma upsert_all_idem: "upsert_all ns (upsert_all ns d) = upsert_all ns d"
proof (induction ns arbitrary: d rule: rev_induct)
  case Nil
  show ?case by (simp add: upsert_all_def)
next
  case (snoc n ns)
  let ?e = "upsert_all ns d"
  have keys: "node_id ` set ns \<subseteq> fst ` set ?e"
    by (simp add: keys_upsert_all)
  have "upsert_all (ns @ [n]) (upsert_all (ns @ [n]) d) =
      AList.update (node_id n) n (upsert_all ns (AList.update (node_id n) n ?e))"
    by (simp add: upsert_all_def)
  also have "\<dots> = AList.update (node_id n) n (upsert_all ns ?e)"
    using keys by (rule upsert_all_absorbs_update)
  also have "\<dots> = AList.update (node_id n) n ?e"
    by (simp add: snoc.IH)
  also have "\<dots> = upsert_all (ns @ [n]) d"
    by (simp add: upsert_all_def)
  finally show ?case .
qed

section \<open>Properties of the scanner\<close>

text \<open>
  C3 as stated does not hold: for the one existing file \<open>src/Legacy.cs\<close> whose content
  fails UTF-8 decoding, \<open>analyze_specific_files\<close> returns an empty \<open>errors\<close> list and
  \<open>files_analyzed = 1\<close>.
\<close>

theorem undecodable_file_not_reported:
  "errors (fst (analyze_specific_files fs_undecodable [''src/Legacy.cs''] init_server)) = []
   \<and> files_analyzed
       (fst (analyze_specific_files fs_undecodable [''src/Legacy.cs''] init_server)) = 1"
  by code_simp

lemma analyze_one_undecodable:
  assumes "fs (path_str (Path p)) = Some UnicodeDecodeError"
  shows "analyze_one fs p (res, self) = (count_file res, self)"
  using assms
  by (simp add: analyze_one_def analyze_file_detailed_def count_file_def Let_def)

lemma analyze_one_count_file:
  "analyze_one fs p (count_file res, self) = apfst count_file (analyze_one fs p (res, self))"
  by (simp add: analyze_one_def Let_def fold_add_node fold_add_relationship count_file_def
      split: option.splits sum.splits prod.splits)

lemma fold_analyze_one_count_file:
  "fold (analyze_one fs) ps (count_file res, self) =
     apfst count_file (fold (analyze_one fs) ps (res, self))"
proof (induction ps arbitrary: res self)
  case Nil
  show ?case by simp
next
  case (Cons p ps)
  obtain res' self' where step: "analyze_one fs p (res, self) = (res', self')"
    by (cases "analyze_one fs p (res, self)")
  show ?case
    by (simp add: analyze_one_count_file step Cons.IH)
qed

text \<open>
  C3, amended. A path that exists and whose content fails UTF-8 decoding adds no entry
  to \<open>errors\<close>, is counted in \<open>files_analyzed\<close>, contributes no node and no
  relationship, and the files before and after it are processed as without it: the call
  returns what it returns for the list without that path, with \<open>files_analyzed\<close> one
  higher.
\<close>

theorem undecodable_file_counted_and_skipped:
  assumes "fs (path_str (Path p)) = Some UnicodeDecodeError"
  shows "analyze_specific_files fs (ps @ p # qs) self =
     apfst count_file (analyze_specific_files fs (ps @ qs) self)"
proof -
  obtain res1 self1 where before:
    "fold (analyze_one fs) ps (analysis_results_init, self) = (res1, self1)"
    by (cases "fold (analyze_one fs) ps (analysis_results_init, self)")
  obtain res2 self2 where after: "fold (analyze_one fs) qs (res1, self1) = (res2, self2)"
    by (cases "fold (analyze_one fs) qs (res1, self1)")
  have "fold (analyze_one fs) (ps @ p # qs) (analysis_results_init, self) =
      (count_file res2, self2)"
    by (simp add: before after analyze_one_undecodable [of fs p, OF assms] fold_analyze_one_count_file)
  moreover have "fold (analyze_one fs) (ps @ qs) (analysis_results_init, self) = (res2, self2)"
    by (simp add: before after)
  ultimately show ?thesis
    by (simp add: analyze_specific_files_def Let_def count_file_def)
qed

theorem undecodable_file_counted_and_skipped_witness:
  "fs_mixed (path_str (Path ''src/Legacy.cs'')) = Some UnicodeDecodeError
   \<and> analyze_specific_files fs_mixed
        ([] @ ''src/Legacy.cs'' # [''src/CustomerManager.cs'']) init_server =
      apfst count_file
        (analyze_specific_files fs_mixed ([] @ [''src/CustomerManager.cs'']) init_server)"
proof -
  have h: "fs_mixed (path_str (Path ''src/Legacy.cs'')) = Some UnicodeDecodeError"
    by code_simp
  show ?thesis
    using h undecodable_file_counted_and_skipped
      [of fs_mixed "''src/Legacy.cs''" "[]" "[''src/CustomerManager.cs'']" init_server, OF h]
    by simp
qed

text \<open>
  C6. Analysing the same files a second time leaves the node store as the first analysis
  left it: the same ids in the same places with the same nodes. One file is the case of a
  one-element list. Starting from the initial state, no id is stored twice.
\<close>

theorem reanalysis_keeps_node_store:
  "nodes (snd (analyze_specific_files fs file_paths
                 (snd (analyze_specific_files fs file_paths self)))) =
   nodes (snd (analyze_specific_files fs file_paths self))
   \<and> nodes (snd (analyze_specific_files fs [file_path]
                 (snd (analyze_specific_files fs [file_path] self)))) =
     nodes (snd (analyze_specific_files fs [file_path] self))
   \<and> fst ` set (nodes (snd (analyze_specific_files fs [file_path]
                 (snd (analyze_specific_files fs [file_path] self))))) =
     fst ` set (nodes (snd (analyze_specific_files fs [file_path] self)))
   \<and> distinct (map fst (nodes (snd (analyze_specific_files fs [file_path]
                 (snd (analyze_specific_files fs [file_path] init_server))))))"
  by (simp add: analyze_specific_files_nodes upsert_all_idem distinct_upsert_all
      init_server_def)

text \<open>
  C10. \<open>nodes_created\<close> is the number of node emissions of the extractors over the
  files that were read, repetitions included. Analysing \<open>src/CustomerManager.cs\<close>
  twice in one call reports six nodes created and leaves three nodes in the store.
\<close>

theorem nodes_created_counts_emissions:
  "nodes_created (fst (analyze_specific_files fs file_paths self)) =
     int (length (emitted_nodes fs file_paths))
   \<and> nodes_created (fst (analyze_specific_files fs_manager
        [''src/CustomerManager.cs'', ''src/CustomerManager.cs''] init_server)) = 6
   \<and> length (nodes (snd (analyze_specific_files fs_manager
        [''src/CustomerManager.cs'', ''src/CustomerManager.cs''] init_server))) = 3"
proof (intro conjI)
  show "nodes_created (fst (analyze_specific_files fs file_paths self)) =
     int (length (emitted_nodes fs file_paths))"
    by (subst analyze_specific_files_split)
      (simp add: fold_analyze_one_nodes_created analysis_results_init_def)
  show "nodes_created (fst (analyze_specific_files fs_manager
        [''src/CustomerManager.cs'', ''src/CustomerManager.cs''] init_server)) = 6"
    by code_simp
  show "length (nodes (snd (analyze_specific_files fs_manager
        [''src/CustomerManager.cs'', ''src/CustomerManager.cs''] init_server))) = 3"
    by code_simp
qed

text \<open>
  C1. After analysing \<open>src/CustomerManager.cs\<close> from the initial state, one pattern,
  of type \<open>database_crud\<close>, is identified and counted, and
  \<open>find_patterns_by_type\<close> returns the empty list for \<open>database_crud\<close>.
  \<open>analyze_specific_files\<close> never changes \<open>self.patterns\<close>, so after any analysis
  from the initial state the lookup is empty for every type.
\<close>

theorem find_patterns_by_type_always_empty:
  "patterns_identified
     (fst (analyze_specific_files fs_manager [''src/CustomerManager.cs''] init_server)) = 1
   \<and> map pattern_type (identify_patterns
        (snd (analyze_specific_files fs_manager [''src/CustomerManager.cs''] init_server)))
      = [''database_crud'']
   \<and> find_patterns_by_type
        (snd (analyze_specific_files fs_manager [''src/CustomerManager.cs''] init_server))
        ''database_crud'' = []
   \<and> find_patterns_by_type (snd (analyze_specific_files fs file_paths init_server)) t = []"
proof (intro conjI)
  show "patterns_identified
     (fst (analyze_specific_files fs_manager [''src/CustomerManager.cs''] init_server)) = 1"
    by code_simp
  show "map pattern_type (identify_patterns
        (snd (analyze_specific_files fs_manager [''src/CustomerManager.cs''] init_server)))
      = [''database_crud'']"
    by code_simp
  show "find_patterns_by_type
        (snd (analyze_specific_files fs_manager [''src/CustomerManager.cs''] init_server))
        ''database_crud'' = []"
    by (simp add: find_patterns_by_type_def analyze_specific_files_patterns init_server_def)
  show "find_patterns_by_type (snd (analyze_specific_files fs file_paths init_server)) t = []"
    by (simp add: find_patterns_by_type_def analyze_specific_files_patterns init_server_def)
qed

section \<open>Summaries and export\<close>

lemma dict_get_count_type:
  "dict_get (count_type x d) k 0 = dict_get d k 0 + (if x = k then 1 else 0)"
  by (simp add: count_type_def dict_get_def update_conv')

lemma dict_get_fold_count_type:
  "dict_get (fold (\<lambda>x. count_type (f x)) xs d) k 0 =
     dict_get d k 0 + int (length (filter (\<lambda>x. f x = k) xs))"
  by (induction xs arbitrary: d) (simp_all add: dict_get_count_type)

lemma sum_list_update:
  "sum_list (map snd (AList.update k v d)) = sum_list (map snd d) - dict_get d k 0 + (v::int)"
  by (induction d) (auto simp: dict_get_def)

lemma sum_list_fold_count_type:
  "sum_list (map snd (fold (\<lambda>x. count_type (f x)) xs d)) =
     sum_list (map snd d) + int (length xs)"
  by (induction xs arbitrary: d) (simp_all add: count_type_def sum_list_update)

lemma node_entries_of_kind:
  "filter (\<lambda>d. pyval_get d ''type'' = Some (PStr k)) (map node_to_dict ns) =
     map node_to_dict (filter (\<lambda>n. NodeType_value (node_type n) = k) ns)"
  by (induction ns) (simp_all add: node_to_dict_def pyval_get_def)

lemma relationship_entries_of_type:
  "filter (\<lambda>d. pyval_get d ''relationship_type'' = Some (PStr k)) (map rel_to_dict rs) =
     map rel_to_dict (filter (\<lambda>r. RelationshipType_value (relationship_type r) = k) rs)"
  by (induction rs) (simp_all add: rel_to_dict_def pyval_get_def)

lemma export_node_entries_of_kind:
  "int (length (filter (\<lambda>d. pyval_get d ''type'' = Some (PStr k))
          (export_nodes (export_graph_data self)))) =
     dict_get (get_node_types_summary self) k 0"
proof -
  have "filter (\<lambda>d. pyval_get d ''type'' = Some (PStr k))
          (export_nodes (export_graph_data self)) =
        map node_to_dict
          (filter (\<lambda>n. NodeType_value (node_type n) = k) (map snd (nodes self)))"
    by (simp only: export_graph_data_def export_data.select_convs node_entries_of_kind)
  moreover have "dict_get (get_node_types_summary self) k 0 =
      int (length (filter (\<lambda>n. NodeType_value (node_type n) = k) (map snd (nodes self))))"
    by (simp only: get_node_types_summary_def dict_get_fold_count_type)
      (simp add: dict_get_def)
  ultimately show ?thesis
    by (simp only: length_map)
qed

lemma export_relationship_entries_of_type:
  "int (length (filter (\<lambda>d. pyval_get d ''relationship_type'' = Some (PStr k))
          (export_relationships (export_graph_data self)))) =
     dict_get (get_relationship_types_summary self) k 0"
proof -
  have "filter (\<lambda>d. pyval_get d ''relationship_type'' = Some (PStr k))
          (export_relationships (export_graph_data self)) =
        map rel_to_dict
          (filter (\<lambda>r. RelationshipType_value (relationship_type r) = k)
             (relationships self))"
    by (simp only: export_graph_data_def export_data.select_convs
        relationship_entries_of_type)
  moreover have "dict_get (get_relationship_types_summary self) k 0 =
      int (length (filter (\<lambda>r. RelationshipType_value (relationship_type r) = k)
             (relationships self)))"
    by (simp only: get_relationship_types_summary_def dict_get_fold_count_type)
      (simp add: dict_get_def)
  ultimately show ?thesis
    by (simp only: length_map)
qed

text \<open>
  C9. In the export document of any state, the number of node entries of a kind is that
  kind's count in \<open>get_node_types_summary\<close> (zero when the summary has no entry), the
  number of relationship entries of a type is that type's count in
  \<open>get_relationship_types_summary\<close>, the totals are the sums of the summaries, and the
  document carries these two summaries. The export of the empty graph has empty
  collections.
\<close>

theorem export_counts_match_summaries:
  "int (length (filter (\<lambda>d. pyval_get d ''type'' = Some (PStr k))
          (export_nodes (export_graph_data self)))) =
     dict_get (get_node_types_summary self) k 0
   \<and> int (length (filter (\<lambda>d. pyval_get d ''relationship_type'' = Some (PStr k))
          (export_relationships (export_graph_data self)))) =
     dict_get (get_relationship_types_summary self) k 0
   \<and> int (length (export_nodes (export_graph_data self))) =
     sum_list (map snd (get_node_types_summary self))
   \<and> int (length (export_relationships (export_graph_data self))) =
     sum_list (map snd (get_relationship_types_summary self))
   \<and> node_types (summary (export_graph_data self)) = get_node_types_summary self
   \<and> relationship_types (summary (export_graph_data self)) =
     get_relationship_types_summary self
   \<and> export_graph_data init_server =
     \<lparr>export_nodes = [], export_relationships = [], export_patterns = [],
      summary = \<lparr>node_types = [], relationship_types = []\<rparr>\<rparr>"
proof (intro conjI)
  show "int (length (filter (\<lambda>d. pyval_get d ''type'' = Some (PStr k))
          (export_nodes (export_graph_data self)))) =
     dict_get (get_node_types_summary self) k 0"
    by (rule export_node_entries_of_kind)
  show "int (length (filter (\<lambda>d. pyval_get d ''relationship_type'' = Some (PStr k))
          (export_relationships (export_graph_data self)))) =
     dict_get (get_relationship_types_summary self) k 0"
    by (rule export_relationship_entries_of_type)
  show "int (length (export_nodes (export_graph_data self))) =
     sum_list (map snd (get_node_types_summary self))"
    by (simp add: export_graph_data_def get_node_types_summary_def
        sum_list_fold_count_type)
  show "int (length (export_relationships (export_graph_data self))) =
     sum_list (map snd (get_relationship_types_summary self))"
    by (simp add: export_graph_data_def get_relationship_types_summary_def
        sum_list_fold_count_type)
  show "node_types (summary (export_graph_data self)) = get_node_types_summary self"
    by (simp add: export_graph_data_def)
  show "relationship_types (summary (export_graph_data self)) =
     get_relationship_types_summary self"
    by (simp add: export_graph_data_def)
  show "export_graph_data init_server =
     \<lparr>export_nodes = [], export_relationships = [], export_patterns = [],
      summary = \<lparr>node_types = [], relationship_types = []\<rparr>\<rparr>"
    by (simp add: export_graph_data_def init_server_def get_node_types_summary_def
        get_relationship_types_summary_def)
qed

section \<open>CRUD grouping\<close>

lemma first_occurrences_snoc:
  "first_occurrences (xs @ [x]) =
     (if x \<in> set xs then first_occurrences xs else first_occurrences xs @ [x])"
  by (simp add: first_occurrences_def)

lemma set_first_occurrences: "set (first_occurrences xs) = set xs"
  by (simp add: first_occurrences_def)

lemma distinct_first_occurrences: "distinct (first_occurrences xs)"
  by (simp add: first_occurrences_def)

lemma map_of_keyed:
  "map_of (map (\<lambda>e. (e, f e)) ks) k = (if k \<in> set ks then Some (f k) else None)"
  by (induction ks) auto

lemma update_keyed_absent:
  "k \<notin> set ks \<Longrightarrow>
     AList.update k v (map (\<lambda>e. (e, f e)) ks) = map (\<lambda>e. (e, f e)) ks @ [(k, v)]"
  by (induction ks) auto

lemma update_keyed_present:
  "k \<in> set ks \<Longrightarrow> distinct ks \<Longrightarrow>
     AList.update k v (map (\<lambda>e. (e, f e)) ks) =
     map (\<lambda>e. (e, if e = k then v else f e)) ks"
proof (induction ks)
  case Nil
  then show ?case by simp
next
  case (Cons a ks)
  show ?case
  proof (cases "a = k")
    case True
    with Cons.prems have "k \<notin> set ks" by simp
    then have "map (\<lambda>e. (e, if e = k then v else f e)) ks = map (\<lambda>e. (e, f e)) ks"
      by (intro map_cong) auto
    with True show ?thesis by simp
  next
    case False
    with Cons show ?thesis by simp
  qed
qed

lemma group_entity_other:
  "\<not> is_manager_class n \<Longrightarrow> group_entity n g = g"
  by (auto simp: group_entity_def is_manager_class_def)

lemma group_entity_manager:
  "is_manager_class n \<Longrightarrow>
     group_entity n g = AList.update (entity_of n) (dict_get g (entity_of n) [] @ [n]) g"
  by (simp add: group_entity_def is_manager_class_def entity_of_def Let_def)

lemma manager_group_snoc:
  "manager_group (ns @ [n]) e =
     manager_group ns e @ (if is_manager_class n \<and> entity_of n = e then [n] else [])"
  by (simp add: manager_group_def)

lemma manager_group_empty:
  "e \<notin> entity_of ` {n \<in> set ns. is_manager_class n} \<Longrightarrow> manager_group ns e = []"
  by (auto simp: manager_group_def filter_empty_conv)

lemma manager_group_nonempty:
  "e \<in> set (entities ns) \<Longrightarrow> manager_group ns e \<noteq> []"
  by (auto simp: entities_def set_first_occurrences manager_group_def filter_empty_conv)

text \<open>The dictionary built by the first loop of \<open>_find_crud_patterns\<close>.\<close>

lemma fold_group_entity:
  "fold group_entity ns [] = map (\<lambda>e. (e, manager_group ns e)) (entities ns)"
proof (induction ns rule: rev_induct)
  case Nil
  show ?case by (simp add: entities_def first_occurrences_def)
next
  case (snoc n ns)
  let ?g = "map (\<lambda>e. (e, manager_group ns e)) (entities ns)"
  show ?case
  proof (cases "is_manager_class n")
    case False
    then have "entities (ns @ [n]) = entities ns"
      by (simp add: entities_def)
    moreover from False have "\<And>e. manager_group (ns @ [n]) e = manager_group ns e"
      by (simp add: manager_group_snoc)
    ultimately show ?thesis
      using False snoc.IH by (simp add: group_entity_other)
  next
    case True
    let ?k = "entity_of n"
    have step: "fold group_entity (ns @ [n]) [] =
        AList.update ?k (dict_get ?g ?k [] @ [n]) ?g"
      using True snoc.IH by (simp add: group_entity_manager)
    show ?thesis
    proof (cases "?k \<in> set (entities ns)")
      case present: True
      then have ents: "entities (ns @ [n]) = entities ns"
        using True by (simp add: entities_def first_occurrences_snoc set_first_occurrences)
      have get: "dict_get ?g ?k [] = manager_group ns ?k"
        using present by (simp add: dict_get_def map_of_keyed)
      have "AList.update ?k (manager_group ns ?k @ [n]) ?g =
          map (\<lambda>e. (e, if e = ?k then manager_group ns ?k @ [n] else manager_group ns e))
            (entities ns)"
        using present
        by (intro update_keyed_present) (simp_all add: entities_def distinct_first_occurrences)
      also have "\<dots> = map (\<lambda>e. (e, manager_group (ns @ [n]) e)) (entities ns)"
        using True by (intro map_cong) (auto simp: manager_group_snoc)
      finally show ?thesis
        by (simp only: step get ents)
    next
      case absent: False
      then have ents: "entities (ns @ [n]) = entities ns @ [?k]"
        using True by (simp add: entities_def first_occurrences_snoc set_first_occurrences)
      have get: "dict_get ?g ?k [] = []"
        using absent by (simp add: dict_get_def map_of_keyed)
      have none: "manager_group ns ?k = []"
        using absent
        by (intro manager_group_empty) (auto simp: entities_def set_first_occurrences)
      have same: "map (\<lambda>e. (e, manager_group (ns @ [n]) e)) (entities ns) = ?g"
        using absent by (intro map_cong) (auto simp: manager_group_snoc)
      have upd: "AList.update ?k ([] @ [n]) ?g = ?g @ [(?k, [n])]"
        using absent by (simp add: update_keyed_absent)
      have new: "manager_group (ns @ [n]) ?k = [n]"
        using True by (simp add: manager_group_snoc none)
      have "map (\<lambda>e. (e, manager_group (ns @ [n]) e)) (entities ns @ [?k]) =
          ?g @ [(?k, [n])]"
        by (simp add: same new)
      then show ?thesis
        by (simp only: step get ents upd)
    qed
  qed
qed

lemma concat_nonempty_groups:
  assumes "\<And>e. e \<in> set ks \<Longrightarrow> f e \<noteq> []"
  shows "concat (map (\<lambda>(e, ms). if 0 < length ms then [h e ms] else [])
           (map (\<lambda>e. (e, f e)) ks)) = map (\<lambda>e. h e (f e)) ks"
  using assms by (induction ks) auto

lemma find_crud_patterns_groups:
  "find_crud_patterns self =
     map (\<lambda>e. crud_pattern self e (manager_group (map snd (nodes self)) e))
       (entities (map snd (nodes self)))"
  unfolding find_crud_patterns_def Let_def fold_group_entity
  by (rule concat_nonempty_groups) (rule manager_group_nonempty)

text \<open>
  C7. CRUD grouping emits one pattern for each entity name, the names taken from the
  class nodes with the \<open>Manager\<close> suffix in the order of their first occurrence and each
  once. Every pattern has type \<open>database_crud\<close>, holds all the manager-class nodes of its
  entity, and its \<open>template_data\<close> is \<open>entity_name\<close> = the prefix, \<open>table_name\<close> =
  prefix + \<open>s\<close>, \<open>primary_key\<close> = prefix + \<open>ID\<close>, \<open>manager_class\<close> = prefix +
  \<open>Manager\<close>. For the class nodes \<open>ProductManager\<close> and \<open>CustomerManager\<close> there are
  exactly two patterns, with entity names \<open>Product\<close> and \<open>Customer\<close>.
\<close>

theorem crud_grouping_by_entity:
  "map template_data (find_crud_patterns self) =
     map crud_template (entities (map snd (nodes self)))
   \<and> map pattern_type (find_crud_patterns self) =
     replicate (length (entities (map snd (nodes self)))) ''database_crud''
   \<and> map pattern_nodes (find_crud_patterns self) =
     map (manager_group (map snd (nodes self))) (entities (map snd (nodes self)))
   \<and> distinct (entities (map snd (nodes self)))
   \<and> set (entities (map snd (nodes self))) =
     entity_of ` {n \<in> set (map snd (nodes self)). is_manager_class n}
   \<and> map entity_name_of (find_crud_patterns two_managers) =
     [Some (PStr ''Product''), Some (PStr ''Customer'')]"
proof (intro conjI)
  show "map template_data (find_crud_patterns self) =
     map crud_template (entities (map snd (nodes self)))"
    by (simp add: find_crud_patterns_groups crud_pattern_def crud_template_def comp_def)
  show "map pattern_type (find_crud_patterns self) =
     replicate (length (entities (map snd (nodes self)))) ''database_crud''"
    by (simp add: find_crud_patterns_groups crud_pattern_def comp_def map_replicate_const)
  show "map pattern_nodes (find_crud_patterns self) =
     map (manager_group (map snd (nodes self))) (entities (map snd (nodes self)))"
    by (simp add: find_crud_patterns_groups crud_pattern_def comp_def)
  show "distinct (entities (map snd (nodes self)))"
    by (simp add: entities_def distinct_first_occurrences)
  show "set (entities (map snd (nodes self))) =
     entity_of ` {n \<in> set (map snd (nodes self)). is_manager_class n}"
    by (auto simp: entities_def set_first_occurrences)
  show "map entity_name_of (find_crud_patterns two_managers) =
     [Some (PStr ''Product''), Some (PStr ''Customer'')]"
    by code_simp
qed

section \<open>Page grouping\<close>

text \<open>
  C8 as stated does not hold. After \<open>web/Orders.aspx\<close> has been analysed twice the
  store holds the page and its one control, \<open>btnSave\<close>, and the \<open>contains\<close>
  relationship twice; the page pattern reports a control count of 2.
\<close>

theorem page_control_count_repeats:
  "aspx_pages orders_twice = [orders_page]
   \<and> map node_id (related_control_nodes orders_twice orders_page) =
       [''web/Orders.aspx:control:btnSave'']
   \<and> map control_count_of (find_page_patterns orders_twice) = [Some (PInt 2)]"
  by code_simp

lemma relate_step:
  "relate self page rel (related_nodes, related_relationships) =
     (related_nodes @ connected_via self page [rel],
      related_relationships @ filter (\<lambda>r. touches r page) [rel])"
  by (auto simp: relate_def connected_via_def touches_def other_end_def Let_def
      split: option.splits)

lemma connected_via_Cons:
  "connected_via self page (rel # rels) =
     connected_via self page [rel] @ connected_via self page rels"
  by (simp add: connected_via_def)

lemma fold_relate:
  "fold (relate self page) rels (related_nodes, related_relationships) =
     (related_nodes @ connected_via self page rels,
      related_relationships @ filter (\<lambda>rel. touches rel page) rels)"
proof (induction rels arbitrary: related_nodes related_relationships)
  case Nil
  show ?case by (simp add: connected_via_def)
next
  case (Cons rel rels)
  have "fold (relate self page) (rel # rels) (related_nodes, related_relationships) =
      fold (relate self page) rels
        (related_nodes @ connected_via self page [rel],
         related_relationships @ filter (\<lambda>r. touches r page) [rel])"
    by (simp only: fold_simps relate_step comp_def)
  also have "\<dots> =
      ((related_nodes @ connected_via self page [rel]) @ connected_via self page rels,
       (related_relationships @ filter (\<lambda>r. touches r page) [rel]) @
         filter (\<lambda>rel. touches rel page) rels)"
    by (rule Cons.IH)
  also have "\<dots> =
      (related_nodes @ connected_via self page (rel # rels),
       related_relationships @ filter (\<lambda>rel. touches rel page) (rel # rels))"
    by (simp add: connected_via_Cons [of self page rel rels])
  finally show ?case .
qed

lemma connected_via_nonempty:
  "(connected_via self page rels \<noteq> []) =
     list_ex (\<lambda>rel. touches rel page \<and> other_end rel page \<in> fst ` set (nodes self)) rels"
proof (induction rels)
  case Nil
  show ?case by (simp add: connected_via_def)
next
  case (Cons rel rels)
  have key: "(map_of (nodes self) (other_end rel page) = None) =
      (other_end rel page \<notin> fst ` set (nodes self))"
    by (rule map_of_eq_None_iff)
  have "(connected_via self page [rel] \<noteq> []) =
      (touches rel page \<and> other_end rel page \<in> fst ` set (nodes self))"
    using key by (cases "map_of (nodes self) (other_end rel page)")
      (simp_all add: connected_via_def)
  then show ?case
    using Cons.IH by (simp add: connected_via_Cons [of self page rel rels])
qed

lemma page_pattern_emitted:
  "map (\<lambda>pat. (pattern_nodes pat, pattern_type pat, control_count_of pat))
     (page_pattern self page) =
   (if connected_nodes self page \<noteq> []
    then [(page # connected_nodes self page, ''aspx_page'',
           Some (PInt (count_controls (page # connected_nodes self page))))]
    else [])"
  by (simp add: page_pattern_def fold_relate connected_nodes_def control_count_of_def
      count_controls_def)

lemma concat_map_if:
  "concat (map (\<lambda>x. if P x then [h x] else []) xs) = map h (filter P xs)"
  by (induction xs) simp_all

text \<open>
  C8, amended. Page grouping emits a pattern for a page node exactly when at least one
  relationship that touches the page has its other end in the node store; the patterns
  come in the order of the page nodes. The pattern holds the page followed by one entry
  for each such relationship, and \<open>control_count\<close> is the number of control entries in
  that list, so a control joined to the page by several relationships is counted once
  for each.
\<close>

theorem page_grouping_one_hop:
  "map (\<lambda>pat. (pattern_nodes pat, pattern_type pat, control_count_of pat))
     (find_page_patterns self) =
   map (\<lambda>page. (page # connected_nodes self page, ''aspx_page'',
                 Some (PInt (count_controls (connected_nodes self page)))))
     (filter (\<lambda>page. connected_nodes self page \<noteq> []) (aspx_pages self))
   \<and> (connected_nodes self page \<noteq> []) =
     list_ex (\<lambda>rel. touches rel page \<and> other_end rel page \<in> fst ` set (nodes self))
       (relationships self)"
proof
  have "map (\<lambda>pat. (pattern_nodes pat, pattern_type pat, control_count_of pat))
      (find_page_patterns self) =
    concat (map (\<lambda>page. if connected_nodes self page \<noteq> []
       then [(page # connected_nodes self page, ''aspx_page'',
              Some (PInt (count_controls (page # connected_nodes self page))))]
       else []) (aspx_pages self))"
    by (simp add: find_page_patterns_def aspx_pages_def Let_def map_concat comp_def
        page_pattern_emitted)
  also have "\<dots> =
    map (\<lambda>page. (page # connected_nodes self page, ''aspx_page'',
                  Some (PInt (count_controls (page # connected_nodes self page)))))
      (filter (\<lambda>page. connected_nodes self page \<noteq> []) (aspx_pages self))"
    by (rule concat_map_if)
  also have "\<dots> =
    map (\<lambda>page. (page # connected_nodes self page, ''aspx_page'',
                  Some (PInt (count_controls (connected_nodes self page)))))
      (filter (\<lambda>page. connected_nodes self page \<noteq> []) (aspx_pages self))"
    by (intro map_cong) (auto simp: aspx_pages_def count_controls_def)
  finally show "map (\<lambda>pat. (pattern_nodes pat, pattern_type pat, control_count_of pat))
     (find_page_patterns self) =
   map (\<lambda>page. (page # connected_nodes self page, ''aspx_page'',
                 Some (PInt (count_controls (connected_nodes self page)))))
     (filter (\<lambda>page. connected_nodes self page \<noteq> []) (aspx_pages self))" .
  show "(connected_nodes self page \<noteq> []) =
     list_ex (\<lambda>rel. touches rel page \<and> other_end rel page \<in> fst ` set (nodes self))
       (relationships self)"
    by (simp add: connected_nodes_def connected_via_nonempty)
qed

end
